theory Spec2Isabelle
  imports Complex_Main
begin

section \<open>The Wayland presentation window (ext/wayland/wlwindow.c)\<close>

text \<open>
  The window object is a record of the fields of \<^verbatim>\<open>GstWlWindow\<close> that the file reads
  or writes.  Pointers to compositor objects are kept as booleans (the object exists or
  the pointer is NULL).  The requests that the code sends to the compositor are appended,
  in program order, to the field \<open>requests\<close>: this is the observable effect of every
  function of the file.  An integer field is an \<open>int\<close>, the value that the 32-bit field
  holds.  The 32-bit arithmetic is written out where a result can leave that range: in
  the fixed-point conversion and in the division by \<open>scale\<close>.
\<close>

subsection \<open>Data\<close>

record GstVideoRectangle =
  rect_x :: int
  rect_y :: int
  rect_w :: int
  rect_h :: int

definition zero_rectangle :: GstVideoRectangle where
  "zero_rectangle = \<lparr>rect_x = 0, rect_y = 0, rect_w = 0, rect_h = 0\<rparr>"

text \<open>A \<^verbatim>\<open>gfloat\<close>: a finite value, an infinity or a NaN.\<close>

datatype gfloat = Finite real | PlusInf | MinusInf | NaN

text \<open>The C comparison \<^verbatim>\<open>alpha < 1.0\<close> (false on a NaN).\<close>

fun gfloat_less_one :: "gfloat \<Rightarrow> bool" where
  "gfloat_less_one (Finite r) = (r < 1)"
| "gfloat_less_one MinusInf = True"
| "gfloat_less_one PlusInf = False"
| "gfloat_less_one NaN = False"

datatype GstVideoFormat = GST_VIDEO_FORMAT_xRGB | GST_VIDEO_FORMAT_BGRx

datatype blending_equation =
    ZWP_BLENDING_V1_BLENDING_EQUATION_FROMSOURCE
  | ZWP_BLENDING_V1_BLENDING_EQUATION_PREMULTIPLIED

datatype wl_surface = AREA_SURFACE | VIDEO_SURFACE
datatype wl_subsurface = AREA_SUBSURFACE | VIDEO_SUBSURFACE
datatype wp_viewport = AREA_VIEWPORT | VIDEO_VIEWPORT

text \<open>
  A buffer handed to the compositor: the shared-memory border filler built by
  \<^verbatim>\<open>gst_wl_window_update_borders\<close> (format, width, height, bytes), or a video frame
  buffer, known by a number only.
\<close>

datatype wl_buffer =
    ShmBuffer GstVideoFormat int int "nat list"
  | FrameBuffer nat

datatype wl_request =
    SubsurfaceSetPosition wl_subsurface int int
  | SubsurfaceSetSync wl_subsurface
  | SubsurfaceSetDesync wl_subsurface
  | ViewportSetDestination wp_viewport int int
  | ViewportSetSource wp_viewport int int int int
  | SurfaceAttach wl_surface "wl_buffer option"
  | SurfaceSetBufferScale wl_surface int
  | SurfaceDamage wl_surface int int int int
  | SurfaceCommit wl_surface
  | SurfaceSetInputRegion wl_surface "GstVideoRectangle list"
  | SurfaceSetOpaqueRegion wl_surface "GstVideoRectangle list"
  | BlendingSetAlpha int
  | BlendingSetBlending blending_equation
  | ShellSurfaceSetToplevel
  | DisplayFlush

text \<open>
  The display, as far as the window reads it.  \<open>shell_surface_ok\<close> is the outcome of
  \<^verbatim>\<open>wl_shell_get_shell_surface\<close>; \<open>surface_state\<close> is the outcome of
  \<^verbatim>\<open>gst_wl_init_surface_state\<close>, a function of wlutils that is not part of this file:
  it fails (\<open>None\<close>) or leaves a scale and a full-screen size in the window.
\<close>

record GstWlDisplay =
  viewporter :: bool
  alpha_compositing :: bool
  shell_surface_ok :: bool
  display_width :: int
  display_height :: int
  preferred_width :: int
  preferred_height :: int
  surface_state :: "(int \<times> int \<times> int) option"

text \<open>
  What the build and the platform fix: the byte order (\<^verbatim>\<open>G_BYTE_ORDER\<close>), the macros
  \<^verbatim>\<open>HAS_DCSS()\<close> and \<^verbatim>\<open>PANEL_HEIGH\<close> of gstimxcommon.h, the conversion
  \<^verbatim>\<open>wl_fixed_from_double\<close> of libwayland, and \<^verbatim>\<open>gst_video_sink_center_rect\<close> of the
  GStreamer video library (source rectangle, destination rectangle, scaling flag).

  The header wlwindow.h, which declares the fields of the window, is not among the
  sources.  The one place where the declared types decide a value is the division of a
  source-crop field by \<open>scale\<close>: C divides signed when both fields are \<^verbatim>\<open>gint\<close> and
  unsigned when one of them is a \<^verbatim>\<open>guint\<close>.  \<open>scale_division_unsigned\<close> says which.
\<close>

record platform =
  big_endian :: bool
  has_dcss :: bool
  panel_heigh :: int
  scale_division_unsigned :: bool
  wl_fixed_from_double :: "gfloat \<Rightarrow> int"
  gst_video_sink_center_rect ::
    "GstVideoRectangle \<Rightarrow> GstVideoRectangle \<Rightarrow> bool \<Rightarrow> GstVideoRectangle"

text \<open>
  \<^verbatim>\<open>GstVideoInfo\<close>, read through its macros: size, pixel aspect ratio, alpha, the
  number of planes and, for a plane index, the stride and the width, pixel stride and
  height of the component.
\<close>

record GstVideoInfo =
  info_width :: int
  info_height :: int
  par_n :: int
  par_d :: int
  has_alpha :: bool
  n_planes :: nat
  plane_stride :: "nat \<Rightarrow> nat"
  comp_width :: "nat \<Rightarrow> nat"
  comp_pstride :: "nat \<Rightarrow> nat"
  comp_height :: "nat \<Rightarrow> nat"

record GstVideoCropMeta =
  crop_x :: int
  crop_y :: int
  crop_width :: int
  crop_height :: int

record GstWlWindow =
  display :: GstWlDisplay
  shell_surface :: bool
  area_subsurface :: bool
  area_viewport :: bool
  video_viewport :: bool
  blend_func :: bool
  render_rectangle :: GstVideoRectangle
  video_rectangle :: GstVideoRectangle
  video_width :: int
  video_height :: int
  src_x :: int
  src_y :: int
  src_width :: int
  src_height :: int
  scale :: int
  fullscreen_width :: int
  fullscreen_height :: int
  no_border_update :: bool
  requests :: "wl_request list"

subsection \<open>Helpers of libwayland and GLib\<close>

text \<open>
  An \<^verbatim>\<open>int\<close> and an \<^verbatim>\<open>unsigned int\<close> of C have 32 bits.  \<open>to_gint\<close> is the value of an
  integer stored into the first (two's complement), \<open>to_guint\<close> into the second.
\<close>

definition to_gint :: "int \<Rightarrow> int" where
  "to_gint i = (i + 2147483648) mod 4294967296 - 2147483648"

definition to_guint :: "int \<Rightarrow> int" where
  "to_guint i = i mod 4294967296"

text \<open>
  \<^verbatim>\<open>wl_fixed_from_int\<close> of wayland-util.h: 24.8 fixed point, the product \<^verbatim>\<open>i * 256\<close> of
  two \<^verbatim>\<open>int\<close>s.  A product outside the range of \<^verbatim>\<open>int\<close> is taken modulo \<open>2 ^ 32\<close>, the
  value that the compiled code holds.
\<close>

definition wl_fixed_from_int :: "int \<Rightarrow> int" where
  "wl_fixed_from_int i = to_gint (i * 256)"

text \<open>C division of \<^verbatim>\<open>int\<close>s truncates towards zero; the divisor is not zero.\<close>

definition c_div :: "int \<Rightarrow> int \<Rightarrow> int" where
  "c_div a b = sgn a * sgn b * (\<bar>a\<bar> div \<bar>b\<bar>)"

text \<open>
  The quotient \<^verbatim>\<open>window->src_... / window->scale\<close>, passed as the \<^verbatim>\<open>int\<close> argument of
  \<^verbatim>\<open>wl_fixed_from_int\<close>.  The signed division is \<open>c_div\<close>.  The unsigned division
  converts both operands to \<^verbatim>\<open>unsigned int\<close>, and its quotient is converted back.
\<close>

definition scale_div :: "platform \<Rightarrow> int \<Rightarrow> int \<Rightarrow> int" where
  "scale_div plat a b =
     (if scale_division_unsigned plat then to_gint (to_guint a div to_guint b)
      else c_div a b)"

text \<open>
  \<^verbatim>\<open>gst_util_uint64_scale_int_round\<close> of GStreamer core, stored into a \<^verbatim>\<open>gint\<close>: the
  rounded quotient, or \<^verbatim>\<open>G_MAXUINT64\<close> (read back as -1) when a precondition fails.
\<close>

definition gst_util_uint64_scale_int_round :: "int \<Rightarrow> int \<Rightarrow> int \<Rightarrow> int" where
  "gst_util_uint64_scale_int_round val num denom =
     (if num < 0 \<or> denom \<le> 0 then - 1 else (val * num + denom div 2) div denom)"

definition send :: "wl_request \<Rightarrow> GstWlWindow \<Rightarrow> GstWlWindow" where
  "send r window = window\<lparr>requests := requests window @ [r]\<rparr>"

subsection \<open>Construction\<close>

definition gst_wl_window_init :: "GstWlDisplay \<Rightarrow> GstWlWindow" where
  "gst_wl_window_init d =
     \<lparr>display = d, shell_surface = False, area_subsurface = False,
      area_viewport = False, video_viewport = False, blend_func = False,
      render_rectangle = zero_rectangle, video_rectangle = zero_rectangle,
      video_width = 0, video_height = 0,
      src_x = 0, src_y = 0, src_width = - 1, src_height = 0, scale = 1,
      fullscreen_width = - 1, fullscreen_height = - 1,
      no_border_update = False, requests = []\<rparr>"

definition gst_wl_window_new_internal :: "platform \<Rightarrow> GstWlDisplay \<Rightarrow> GstWlWindow" where
  "gst_wl_window_new_internal plat d =
     (let window = gst_wl_window_init d;
          window = send (SubsurfaceSetDesync VIDEO_SUBSURFACE) window;
          window = (if viewporter d
                    then window\<lparr>area_viewport := True, video_viewport := True\<rparr>
                    else window);
          window = (if alpha_compositing d then window\<lparr>blend_func := True\<rparr> else window);
          window = send (SurfaceSetInputRegion AREA_SURFACE []) window;
          window = send (SurfaceSetInputRegion VIDEO_SURFACE []) window
      in case surface_state d of
           Some (s, fw, fh) \<Rightarrow>
             window\<lparr>scale := s, fullscreen_width := fw, fullscreen_height := fh\<rparr>
         | None \<Rightarrow>
             window\<lparr>fullscreen_width := display_width d,
                    fullscreen_height := display_height d - panel_heigh plat,
                    scale := 1\<rparr>)"

definition gst_wl_window_is_toplevel :: "GstWlWindow \<Rightarrow> bool" where
  "gst_wl_window_is_toplevel window = shell_surface window"

subsection \<open>Geometry of the video surface\<close>

text \<open>
  \<^verbatim>\<open>gst_wl_window_resize_video_surface\<close>.  The four divisions by \<open>scale\<close> come first: a
  zero scale is a division by zero, the result \<open>None\<close>.
\<close>

definition gst_wl_window_resize_video_surface ::
    "platform \<Rightarrow> GstWlWindow \<Rightarrow> bool \<Rightarrow> GstWlWindow option" where
  "gst_wl_window_resize_video_surface plat window commit =
     (if scale window = 0 then None
      else
        let fx = wl_fixed_from_int (scale_div plat (src_x window) (scale window));
            fy = wl_fixed_from_int (scale_div plat (src_y window) (scale window));
            fw = wl_fixed_from_int (scale_div plat (src_width window) (scale window));
            fh = wl_fixed_from_int (scale_div plat (src_height window) (scale window));
            src = zero_rectangle\<lparr>rect_w := video_width window, rect_h := video_height window\<rparr>;
            dst = zero_rectangle\<lparr>rect_w := rect_w (render_rectangle window),
                                 rect_h := rect_h (render_rectangle window)\<rparr>;
            res = gst_video_sink_center_rect plat src dst (video_viewport window);
            window =
              (if video_viewport window
               then
                 let window = send (ViewportSetDestination VIDEO_VIEWPORT
                                      (rect_w res) (rect_h res)) window
                 in if fw \<noteq> wl_fixed_from_int (- 1)
                    then send (ViewportSetSource VIDEO_VIEWPORT fx fy fw fh) window
                    else window
               else window);
            window = send (SubsurfaceSetPosition VIDEO_SUBSURFACE (rect_x res) (rect_y res)) window;
            window =
              (if commit
               then send (SurfaceCommit VIDEO_SURFACE)
                      (send (SurfaceDamage VIDEO_SURFACE 0 0 (rect_w res) (rect_h res)) window)
               else window);
            window =
              (if gst_wl_window_is_toplevel window
               then send (SurfaceSetInputRegion AREA_SURFACE
                            [zero_rectangle\<lparr>rect_w := rect_w (render_rectangle window),
                                            rect_h := rect_h (render_rectangle window)\<rparr>]) window
               else window)
        in Some (window\<lparr>video_rectangle := res\<rparr>))"

definition gst_wl_window_set_opaque :: "platform \<Rightarrow> GstWlWindow \<Rightarrow> GstVideoInfo \<Rightarrow> GstWlWindow" where
  "gst_wl_window_set_opaque plat window info =
     (if \<not> has_alpha info
      then if has_dcss plat then window
           else send (SurfaceSetOpaqueRegion VIDEO_SURFACE
                        [zero_rectangle\<lparr>rect_w := rect_w (render_rectangle window),
                                        rect_h := rect_h (render_rectangle window)\<rparr>]) window
      else window)"

subsection \<open>Rendering a frame\<close>

text \<open>
  \<^verbatim>\<open>gst_wl_window_render\<close>.  The frame buffer is known by its number;
  \<^verbatim>\<open>gst_wl_buffer_attach\<close> (wlbuffer.c) attaches it to the surface.
\<close>

definition gst_wl_window_render ::
    "platform \<Rightarrow> GstWlWindow \<Rightarrow> nat option \<Rightarrow> GstVideoInfo option \<Rightarrow> GstWlWindow option" where
  "gst_wl_window_render plat window buffer info =
     (let prepared =
            (case info of
               None \<Rightarrow> Some window
             | Some i \<Rightarrow>
                 (let window = window\<lparr>video_width :=
                                  gst_util_uint64_scale_int_round (info_width i) (par_n i) (par_d i),
                                video_height := info_height i\<rparr>;
                      window = send (SubsurfaceSetSync VIDEO_SUBSURFACE) window
                  in case gst_wl_window_resize_video_surface plat window False of
                       None \<Rightarrow> None
                     | Some window \<Rightarrow> Some (gst_wl_window_set_opaque plat window i)))
      in case prepared of
           None \<Rightarrow> None
         | Some window \<Rightarrow>
             (let window =
                    (case buffer of
                       Some b \<Rightarrow> send (SurfaceAttach VIDEO_SURFACE (Some (FrameBuffer b))) window
                     | None \<Rightarrow> send (SurfaceAttach VIDEO_SURFACE None) window);
                  window = send (SurfaceSetBufferScale VIDEO_SURFACE (scale window)) window;
                  window = send (SurfaceDamage VIDEO_SURFACE 0 0
                                   (rect_w (video_rectangle window))
                                   (rect_h (video_rectangle window))) window;
                  window = send (SurfaceCommit VIDEO_SURFACE) window;
                  window =
                    (if info \<noteq> None
                     then send (SubsurfaceSetDesync VIDEO_SUBSURFACE)
                            (send (SurfaceCommit AREA_SURFACE)
                               (send (SurfaceDamage AREA_SURFACE 0 0
                                        (rect_w (render_rectangle window))
                                        (rect_h (render_rectangle window))) window))
                     else window)
              in Some (send DisplayFlush window)))"

subsection \<open>The border buffer\<close>

text \<open>
  \<^verbatim>\<open>gst_video_info_set_format\<close> for the two 32-bit packed formats used here gives a
  frame of four bytes per pixel; \<^verbatim>\<open>gst_buffer_memset\<close> writes the byte 0 over all of it.
\<close>

definition border_info_size :: "int \<Rightarrow> int \<Rightarrow> nat" where
  "border_info_size width height = nat (4 * width * height)"

definition gst_wl_window_update_borders :: "platform \<Rightarrow> GstWlWindow \<Rightarrow> GstWlWindow" where
  "gst_wl_window_update_borders plat window =
     (if no_border_update window then window
      else
        let (width, height, window) =
              (if viewporter (display window)
               then (1, 1, window\<lparr>no_border_update := True\<rparr>)
               else (rect_w (render_rectangle window), rect_h (render_rectangle window), window));
            format = (if big_endian plat then GST_VIDEO_FORMAT_xRGB else GST_VIDEO_FORMAT_BGRx);
            buf = replicate (border_info_size width height) (0::nat)
        in send (SurfaceAttach AREA_SURFACE (Some (ShmBuffer format width height buf))) window)"

definition gst_wl_window_set_render_rectangle ::
    "platform \<Rightarrow> GstWlWindow \<Rightarrow> int \<Rightarrow> int \<Rightarrow> int \<Rightarrow> int \<Rightarrow> GstWlWindow option" where
  "gst_wl_window_set_render_rectangle plat window x y w h =
     (let window = window\<lparr>render_rectangle :=
                      \<lparr>rect_x = x, rect_y = y, rect_w = w, rect_h = h\<rparr>\<rparr>;
          window = (if area_subsurface window
                    then send (SubsurfaceSetPosition AREA_SUBSURFACE x y) window else window);
          window = (if area_viewport window
                    then send (ViewportSetDestination AREA_VIEWPORT w h) window else window);
          window = gst_wl_window_update_borders plat window;
          resized =
            (if video_width window \<noteq> 0
             then gst_wl_window_resize_video_surface plat
                    (send (SubsurfaceSetSync VIDEO_SUBSURFACE) window) True
             else Some window)
      in case resized of
           None \<Rightarrow> None
         | Some window \<Rightarrow>
             (let window = send (SurfaceCommit AREA_SURFACE)
                             (send (SurfaceDamage AREA_SURFACE 0 0 w h) window)
              in Some (if video_width window \<noteq> 0
                       then send (SubsurfaceSetDesync VIDEO_SUBSURFACE) window
                       else window)))"

definition handle_configure :: "platform \<Rightarrow> GstWlWindow \<Rightarrow> int \<Rightarrow> int \<Rightarrow> GstWlWindow option" where
  "handle_configure plat window width height =
     (if width = 0 \<or> height = 0 then Some window
      else gst_wl_window_set_render_rectangle plat window 0 0 width height)"

text \<open>
  \<^verbatim>\<open>gst_wl_window_new_toplevel\<close>: the outer \<open>None\<close> is the division by a zero scale, the
  inner one the NULL returned when no shell surface can be had.
\<close>

definition gst_wl_window_new_toplevel ::
    "platform \<Rightarrow> GstWlDisplay \<Rightarrow> GstVideoInfo \<Rightarrow> GstWlWindow option option" where
  "gst_wl_window_new_toplevel plat d info =
     (let window = gst_wl_window_new_internal plat d
      in if \<not> shell_surface_ok d then Some None
         else
           let window = send ShellSurfaceSetToplevel (window\<lparr>shell_surface := True\<rparr>);
               (width, height) =
                 (if preferred_width d > 0 \<and> preferred_height d > 0
                  then (preferred_width d, preferred_height d)
                  else if fullscreen_width window \<le> 0
                  then (gst_util_uint64_scale_int_round (info_width info) (par_n info) (par_d info),
                        info_height info)
                  else (fullscreen_width window, fullscreen_height window))
           in map_option Some (gst_wl_window_set_render_rectangle plat window 0 0 width height))"

definition gst_wl_window_new_in_surface :: "platform \<Rightarrow> GstWlDisplay \<Rightarrow> GstWlWindow" where
  "gst_wl_window_new_in_surface plat d =
     send (SubsurfaceSetDesync AREA_SUBSURFACE)
       ((gst_wl_window_new_internal plat d)\<lparr>area_subsurface := True\<rparr>)"

subsection \<open>Source crop and alpha\<close>

definition gst_wl_window_set_source_crop ::
    "GstWlWindow \<Rightarrow> GstVideoCropMeta option \<Rightarrow> GstWlWindow" where
  "gst_wl_window_set_source_crop window crop =
     (case crop of
        Some c \<Rightarrow> window\<lparr>src_x := crop_x c, src_y := crop_y c,
                         src_width := crop_width c, src_height := crop_height c\<rparr>
      | None \<Rightarrow> window\<lparr>src_width := - 1\<rparr>)"

text \<open>\<^verbatim>\<open>gst_wl_window_set_alpha\<close>; a NULL window is \<open>None\<close>.\<close>

definition gst_wl_window_set_alpha ::
    "platform \<Rightarrow> GstWlWindow option \<Rightarrow> gfloat \<Rightarrow> GstWlWindow option" where
  "gst_wl_window_set_alpha plat window alpha =
     (case window of
        None \<Rightarrow> None
      | Some w \<Rightarrow>
          if blend_func w
          then let w = send (BlendingSetAlpha (wl_fixed_from_double plat alpha)) w
               in if gfloat_less_one alpha
                  then Some (send (BlendingSetBlending
                                     ZWP_BLENDING_V1_BLENDING_EQUATION_FROMSOURCE) w)
                  else Some (send (BlendingSetBlending
                                     ZWP_BLENDING_V1_BLENDING_EQUATION_PREMULTIPLIED) w)
          else Some w)"

subsection \<open>The life of a window\<close>

text \<open>
  After its construction a window is driven through the public functions of the file and
  the configure event of its shell surface.  A run stops (\<open>None\<close>) when a call divides
  by a zero scale.
\<close>

datatype window_event =
    SetRenderRectangle int int int int
  | Render "nat option" "GstVideoInfo option"
  | SetSourceCrop "GstVideoCropMeta option"
  | SetAlpha gfloat
  | Configure int int

fun window_call :: "platform \<Rightarrow> GstWlWindow \<Rightarrow> window_event \<Rightarrow> GstWlWindow option" where
  "window_call plat window (SetRenderRectangle x y w h) =
     gst_wl_window_set_render_rectangle plat window x y w h"
| "window_call plat window (Render buffer info) = gst_wl_window_render plat window buffer info"
| "window_call plat window (SetSourceCrop crop) = Some (gst_wl_window_set_source_crop window crop)"
| "window_call plat window (SetAlpha alpha) = gst_wl_window_set_alpha plat (Some window) alpha"
| "window_call plat window (Configure w h) = handle_configure plat window w h"

fun window_calls :: "platform \<Rightarrow> GstWlWindow \<Rightarrow> window_event list \<Rightarrow> GstWlWindow option" where
  "window_calls plat window [] = Some window"
| "window_calls plat window (c # cs) =
     (case window_call plat window c of
        None \<Rightarrow> None
      | Some window' \<Rightarrow> window_calls plat window' cs)"

text \<open>
  What the compositor holds for a surface after a sequence of requests: the buffer of the
  last attach to it.
\<close>

fun attach_step :: "wl_surface \<Rightarrow> wl_buffer option \<Rightarrow> wl_request \<Rightarrow> wl_buffer option" where
  "attach_step s cur (SurfaceAttach s' b) = (if s' = s then b else cur)"
| "attach_step s cur r = cur"

definition attached :: "wl_surface \<Rightarrow> wl_request list \<Rightarrow> wl_buffer option" where
  "attached s rs = foldl (attach_step s) None rs"

fun is_area_attach :: "wl_request \<Rightarrow> bool" where
  "is_area_attach (SurfaceAttach AREA_SURFACE b) = True"
| "is_area_attach r = False"

fun is_viewport_source :: "wl_request \<Rightarrow> bool" where
  "is_viewport_source (ViewportSetSource v x y w h) = True"
| "is_viewport_source r = False"

text \<open>
  A window is born through one of the two public constructors: embedded in a parent
  surface (no video information is needed), or as a top-level window.
\<close>

definition window_born :: "platform \<Rightarrow> GstWlDisplay \<Rightarrow> GstVideoInfo option \<Rightarrow> GstWlWindow option" where
  "window_born plat d info =
     (case info of
        None \<Rightarrow> Some (gst_wl_window_new_in_surface plat d)
      | Some i \<Rightarrow> (case gst_wl_window_new_toplevel plat d i of
                     Some (Some window) \<Rightarrow> Some window
                   | _ \<Rightarrow> None))"

definition window_life ::
    "platform \<Rightarrow> GstWlDisplay \<Rightarrow> GstVideoInfo option \<Rightarrow> window_event list \<Rightarrow> GstWlWindow option" where
  "window_life plat d info cs =
     (case window_born plat d info of
        None \<Rightarrow> None
      | Some window \<Rightarrow> window_calls plat window cs)"

subsection \<open>The geometry engine\<close>

text \<open>
  Modelled from the spec: \<^verbatim>\<open>gst_video_sink_center_rect\<close>, the function that computes
  the rectangle of the video inside the render rectangle, belongs to the GStreamer video
  library and is not under src/.  The spec calls it \<open>computeFit\<close>: with letterboxing it
  "scales content to the largest rectangle that fits inside the bounding rectangle while
  preserving its aspect ratio, centers it"; without, it "reports the bounding rectangle
  unchanged".  The largest rectangle of the content's aspect ratio spans the bounding
  rectangle on the axis where the content is relatively larger, and its other side is the
  scaled content side, rounded down to a whole pixel.
\<close>

definition computeFit :: "GstVideoRectangle \<Rightarrow> GstVideoRectangle \<Rightarrow> bool \<Rightarrow> GstVideoRectangle" where
  "computeFit content bounding letterbox =
     (if \<not> letterbox then bounding
      else if rect_w content * rect_h bounding > rect_w bounding * rect_h content
      then let h = (rect_w bounding * rect_h content) div rect_w content
           in \<lparr>rect_x = rect_x bounding,
               rect_y = rect_y bounding + (rect_h bounding - h) div 2,
               rect_w = rect_w bounding, rect_h = h\<rparr>
      else if rect_w content * rect_h bounding < rect_w bounding * rect_h content
      then let w = (rect_h bounding * rect_w content) div rect_h content
           in \<lparr>rect_x = rect_x bounding + (rect_w bounding - w) div 2,
               rect_y = rect_y bounding,
               rect_w = w, rect_h = rect_h bounding\<rparr>
      else bounding)"

text \<open>The words of the geometry property, for a result \<open>r\<close>, a bounding rectangle \<open>b\<close>
  and a content size \<open>c\<close>.\<close>

definition rect_inside :: "GstVideoRectangle \<Rightarrow> GstVideoRectangle \<Rightarrow> bool" where
  "rect_inside r b \<longleftrightarrow>
     0 \<le> rect_w r \<and> 0 \<le> rect_h r \<and>
     rect_x b \<le> rect_x r \<and> rect_x r + rect_w r \<le> rect_x b + rect_w b \<and>
     rect_y b \<le> rect_y r \<and> rect_y r + rect_h r \<le> rect_y b + rect_h b"

text \<open>Centred: on each axis the two margins differ by one pixel at most.\<close>

definition rect_centered :: "GstVideoRectangle \<Rightarrow> GstVideoRectangle \<Rightarrow> bool" where
  "rect_centered r b \<longleftrightarrow>
     \<bar>(rect_x r - rect_x b) - ((rect_x b + rect_w b) - (rect_x r + rect_w r))\<bar> \<le> 1 \<and>
     \<bar>(rect_y r - rect_y b) - ((rect_y b + rect_h b) - (rect_y r + rect_h r))\<bar> \<le> 1"

text \<open>The aspect ratio of \<open>c\<close>, up to the rounding of one side to a whole pixel.\<close>

definition aspect_kept :: "GstVideoRectangle \<Rightarrow> GstVideoRectangle \<Rightarrow> bool" where
  "aspect_kept r c \<longleftrightarrow>
     \<bar>rect_w r * rect_h c - rect_h r * rect_w c\<bar> < max (rect_w c) (rect_h c)"

text \<open>Touching at least one edge of \<open>b\<close> on each axis.\<close>

definition touches_each_axis :: "GstVideoRectangle \<Rightarrow> GstVideoRectangle \<Rightarrow> bool" where
  "touches_each_axis r b \<longleftrightarrow>
     (rect_x r = rect_x b \<or> rect_x r + rect_w r = rect_x b + rect_w b) \<and>
     (rect_y r = rect_y b \<or> rect_y r + rect_h r = rect_y b + rect_h b)"

text \<open>Touching both edges of \<open>b\<close> on at least one axis.\<close>

definition spans_one_axis :: "GstVideoRectangle \<Rightarrow> GstVideoRectangle \<Rightarrow> bool" where
  "spans_one_axis r b \<longleftrightarrow>
     (rect_x r = rect_x b \<and> rect_w r = rect_w b) \<or>
     (rect_y r = rect_y b \<and> rect_h r = rect_h b)"

subsection \<open>The border filler and a reference configuration\<close>

text \<open>
  A solid buffer of a width and a height: the format that the file selects for
  \<^verbatim>\<open>WL_SHM_FORMAT_XRGB8888\<close> on the platform, four zero bytes per pixel.
\<close>

definition border_format :: "platform \<Rightarrow> GstVideoFormat" where
  "border_format plat = (if big_endian plat then GST_VIDEO_FORMAT_xRGB else GST_VIDEO_FORMAT_BGRx)"

definition border_filler :: "platform \<Rightarrow> int \<Rightarrow> int \<Rightarrow> wl_buffer" where
  "border_filler plat w h = ShmBuffer (border_format plat) w h (replicate (nat (4 * w * h)) 0)"

text \<open>
  A little-endian platform without DCSS, whose fixed-point conversion rounds down and
  whose window fields are all \<^verbatim>\<open>gint\<close>, the same platform with an unsigned \<open>scale\<close>, and
  two displays of 1920x1080 on it: one with a viewporter and alpha compositing whose
  surface state reports a scale of 2, one without any extension.
\<close>

definition reference_platform :: platform where
  "reference_platform =
     \<lparr>big_endian = False, has_dcss = False, panel_heigh = 0,
      scale_division_unsigned = False,
      wl_fixed_from_double = (\<lambda>a. case a of Finite r \<Rightarrow> \<lfloor>r * 256\<rfloor> | _ \<Rightarrow> 0),
      gst_video_sink_center_rect = computeFit\<rparr>"

definition unsigned_platform :: platform where
  "unsigned_platform = reference_platform\<lparr>scale_division_unsigned := True\<rparr>"

definition scaled_display :: GstWlDisplay where
  "scaled_display =
     \<lparr>viewporter = True, alpha_compositing = True, shell_surface_ok = True,
      display_width = 1920, display_height = 1080,
      preferred_width = 0, preferred_height = 0,
      surface_state = Some (2, 1920, 1080)\<rparr>"

definition plain_display :: GstWlDisplay where
  "plain_display =
     \<lparr>viewporter = False, alpha_compositing = False, shell_surface_ok = True,
      display_width = 1920, display_height = 1080,
      preferred_width = 0, preferred_height = 0,
      surface_state = None\<rparr>"

definition hd_info :: GstVideoInfo where
  "hd_info =
     \<lparr>info_width = 1920, info_height = 1080, par_n = 1, par_d = 1, has_alpha = False,
      n_planes = 1, plane_stride = (\<lambda>i. 7680), comp_width = (\<lambda>i. 1920),
      comp_pstride = (\<lambda>i. 4), comp_height = (\<lambda>i. 1080)\<rparr>"

section \<open>The CUDA memory copy element (sys/nvcodec/gstcudamemorycopy.c)\<close>

text \<open>
  The file is modelled as built with both \<^verbatim>\<open>HAVE_NVCODEC_NVMM\<close> and
  \<^verbatim>\<open>HAVE_NVCODEC_GST_GL\<close>.  A transform works on two buffers, the input and the output.
  Every call that leaves the file (mapping, the CUDA driver, the GL thread) is recorded,
  with its outcome, in a list of events in program order.  Whether such a call succeeds is
  not decided by the file: a \<open>driver\<close> answers, from the events so far and the call.
\<close>

subsection \<open>Data\<close>

datatype GstCudaMemoryCopyMemType =
    GST_CUDA_MEMORY_COPY_MEM_SYSTEM
  | GST_CUDA_MEMORY_COPY_MEM_CUDA
  | GST_CUDA_MEMORY_COPY_MEM_NVMM
  | GST_CUDA_MEMORY_COPY_MEM_GL

datatype GstFlowReturn = GST_FLOW_OK | GST_FLOW_ERROR

text \<open>The allocator of a \<^verbatim>\<open>GstMemory\<close>, as the two type checks of the file see it.\<close>

datatype GstMemory = CUDA_MEMORY | GL_MEMORY_PBO | OTHER_MEMORY

definition gst_is_cuda_memory :: "GstMemory \<Rightarrow> bool" where
  "gst_is_cuda_memory mem \<longleftrightarrow> mem = CUDA_MEMORY"

definition gst_is_gl_memory_pbo :: "GstMemory \<Rightarrow> bool" where
  "gst_is_gl_memory_pbo mem \<longleftrightarrow> mem = GL_MEMORY_PBO"

datatype buffer_role = INBUF | OUTBUF

datatype GstMapFlags = GST_MAP_READ | GST_MAP_WRITE

datatype CUmemorytype =
    CU_MEMORYTYPE_UNSET
  | CU_MEMORYTYPE_HOST
  | CU_MEMORYTYPE_DEVICE
  | CU_MEMORYTYPE_UNIFIED

record CUDA_MEMCPY2D =
  srcMemoryType :: CUmemorytype
  srcHost :: nat
  srcDevice :: nat
  srcPitch :: nat
  dstMemoryType :: CUmemorytype
  dstHost :: nat
  dstDevice :: nat
  dstPitch :: nat
  WidthInBytes :: nat
  Height :: nat

text \<open>The descriptor after \<^verbatim>\<open>memset (copy_params, 0, ...)\<close>.\<close>

definition zero_copy_params :: CUDA_MEMCPY2D where
  "zero_copy_params =
     \<lparr>srcMemoryType = CU_MEMORYTYPE_UNSET, srcHost = 0, srcDevice = 0, srcPitch = 0,
      dstMemoryType = CU_MEMORYTYPE_UNSET, dstHost = 0, dstDevice = 0, dstPitch = 0,
      WidthInBytes = 0, Height = 0\<rparr>"

datatype NvBufSurfaceMemType =
    NVBUF_MEM_DEFAULT
  | NVBUF_MEM_CUDA_PINNED
  | NVBUF_MEM_CUDA_DEVICE
  | NVBUF_MEM_CUDA_UNIFIED
  | NVBUF_MEM_SURFACE_ARRAY
  | NVBUF_MEM_HANDLE
  | NVBUF_MEM_SYSTEM

record NvBufSurfacePlaneParams =
  num_planes :: nat
  pp_width :: "nat \<Rightarrow> nat"
  pp_height :: "nat \<Rightarrow> nat"
  pp_pitch :: "nat \<Rightarrow> nat"
  pp_offset :: "nat \<Rightarrow> nat"
  pp_bytesPerPix :: "nat \<Rightarrow> nat"

record NvBufSurfaceParams =
  dataPtr :: nat
  planeParams :: NvBufSurfacePlaneParams

record NvBufSurface =
  memType :: NvBufSurfaceMemType
  surfaceList :: "NvBufSurfaceParams option"

text \<open>
  A buffer: its memories, the surface that \<^verbatim>\<open>gst_buffer_map\<close> exposes when the buffer
  is an NVMM one, the plane pointers and strides that \<^verbatim>\<open>gst_video_frame_map\<close> exposes,
  and the device pointer of the graphics resource of each of its GL memories.
\<close>

record GstBuffer =
  memories :: "GstMemory list"
  surface :: NvBufSurface
  frame_plane_data :: "nat \<Rightarrow> nat"
  frame_plane_stride :: "nat \<Rightarrow> nat"
  resource_dev_ptr :: "nat \<Rightarrow> nat"

text \<open>The element: the two flags of this file, the GL context and the negotiated formats
  \<^verbatim>\<open>ctrans->in_info\<close> and \<^verbatim>\<open>ctrans->out_info\<close> kept by the base class.\<close>

record GstCudaMemoryCopy =
  in_nvmm :: bool
  out_nvmm :: bool
  gl_context :: bool
  ctrans_in_info :: GstVideoInfo
  ctrans_out_info :: GstVideoInfo

text \<open>The three copy routines that a transform enters.\<close>

datatype routine =
    TRANSFORM_SYSMEM
  | TRANSFORM_CUDA GstCudaMemoryCopyMemType GstCudaMemoryCopyMemType
  | GL_INTEROP bool GstCudaMemoryCopyMemType

text \<open>The calls whose outcome the driver decides.\<close>

datatype call =
    CallVideoFrameMap buffer_role GstMapFlags bool
  | CallVideoFrameCopy
  | CallBufferMap buffer_role
  | CallContextPush
  | CallMemcpy2DAsync nat
  | CallGLContextThreadAdd
  | CallEnsureGLInterop
  | CallGetQdata nat
  | CallMemoryMap nat
  | CallRegisterGLBuffer nat
  | CallGraphicsResourceMap nat
  | CallGetMappedPointer nat

datatype event =
    Enter routine
  | VideoFrameMap buffer_role GstMapFlags bool bool
  | VideoFrameUnmap buffer_role
  | VideoFrameCopy bool
  | BufferMap buffer_role bool
  | BufferUnmap buffer_role
  | ContextPush bool
  | ContextPop
  | Memcpy2DAsync nat CUDA_MEMCPY2D bool
  | StreamSynchronize
  | EnsureGLInterop bool
  | GraphicsResourceNew nat
  | GraphicsResourceFree nat
  | MemoryMap nat bool
  | MemoryUnmap nat
  | RegisterGLBuffer nat bool
  | SetQdata nat
  | NeedUploadDownload nat
  | PboUploadDownloadTransfer nat
  | GraphicsResourceMap nat bool bool
  | GetMappedPointer nat bool
  | GraphicsResourceUnmap nat

type_synonym driver = "event list \<Rightarrow> call \<Rightarrow> bool"

subsection \<open>Negotiation: which ends are NVMM\<close>

text \<open>Caps: one list of feature names for each structure.\<close>

type_synonym GstCaps = "string list list"

definition GST_CAPS_FEATURE_MEMORY_CUDA_NVMM_MEMORY :: string where
  "GST_CAPS_FEATURE_MEMORY_CUDA_NVMM_MEMORY = ''memory:NVMM''"

definition gst_caps_get_features :: "GstCaps \<Rightarrow> nat \<Rightarrow> string list option" where
  "gst_caps_get_features caps i = (if i < length caps then Some (caps ! i) else None)"

definition caps_nvmm :: "GstCaps \<Rightarrow> bool" where
  "caps_nvmm caps =
     (case gst_caps_get_features caps 0 of
        None \<Rightarrow> False
      | Some features \<Rightarrow> GST_CAPS_FEATURE_MEMORY_CUDA_NVMM_MEMORY \<in> set features)"

text \<open>
  \<^verbatim>\<open>gst_cuda_memory_copy_set_info\<close>; the first argument is what the process-wide
  \<^verbatim>\<open>gst_cuda_nvmm_init_once ()\<close> returns.
\<close>

definition gst_cuda_memory_copy_set_info ::
    "bool \<Rightarrow> GstCudaMemoryCopy \<Rightarrow> GstCaps \<Rightarrow> GstCaps \<Rightarrow> bool \<times> GstCudaMemoryCopy" where
  "gst_cuda_memory_copy_set_info gst_cuda_nvmm_init_once self incaps outcaps =
     (let self = self\<lparr>in_nvmm := False, out_nvmm := False\<rparr>;
          self =
            (if gst_cuda_nvmm_init_once
             then let self = (if caps_nvmm incaps then self\<lparr>in_nvmm := True\<rparr> else self)
                  in (if caps_nvmm outcaps then self\<lparr>out_nvmm := True\<rparr> else self)
             else self)
      in (True, self))"

subsection \<open>The staged copy through system memory\<close>

definition gst_cuda_memory_copy_transform_sysmem ::
    "driver \<Rightarrow> event list \<Rightarrow> bool \<times> event list" where
  "gst_cuda_memory_copy_transform_sysmem drv t =
     (let t = t @ [Enter TRANSFORM_SYSMEM]
      in if \<not> drv t (CallVideoFrameMap INBUF GST_MAP_READ False)
         then (False, t @ [VideoFrameMap INBUF GST_MAP_READ False False])
         else
           let t = t @ [VideoFrameMap INBUF GST_MAP_READ False True]
           in if \<not> drv t (CallVideoFrameMap OUTBUF GST_MAP_WRITE False)
              then (False, t @ [VideoFrameMap OUTBUF GST_MAP_WRITE False False,
                                VideoFrameUnmap INBUF])
              else
                let t = t @ [VideoFrameMap OUTBUF GST_MAP_WRITE False True];
                    ret = drv t CallVideoFrameCopy
                in (ret, t @ [VideoFrameCopy ret, VideoFrameUnmap OUTBUF,
                              VideoFrameUnmap INBUF]))"

subsection \<open>Mapping a buffer and filling the copy descriptors\<close>

text \<open>
  The array \<^verbatim>\<open>copy_params\<close> is a function of the plane index; the plane counts of a
  \<^verbatim>\<open>GstVideoInfo\<close> stay below \<^verbatim>\<open>GST_VIDEO_MAX_PLANES\<close>, the size of the array.
  A loop over the planes \<open>0 .. n - 1\<close> that rewrites the descriptor of each plane:
\<close>

definition for_planes ::
    "nat \<Rightarrow> (nat \<Rightarrow> CUDA_MEMCPY2D \<Rightarrow> CUDA_MEMCPY2D) \<Rightarrow> (nat \<Rightarrow> CUDA_MEMCPY2D) \<Rightarrow> nat \<Rightarrow> CUDA_MEMCPY2D" where
  "for_planes n f copy_params = foldl (\<lambda>cp i. cp(i := f i (cp i))) copy_params [0..<n]"

text \<open>What a mapping leaves behind: \<^verbatim>\<open>frame->buffer\<close> and \<^verbatim>\<open>map_info->data\<close>, set or NULL.\<close>

record mapping =
  frame_buffer :: bool
  map_data :: bool

definition unmapped :: mapping where
  "unmapped = \<lparr>frame_buffer = False, map_data = False\<rparr>"

text \<open>The source or destination side of a descriptor for a plane of an NVMM surface.\<close>

definition nvmm_side ::
    "bool \<Rightarrow> NvBufSurfaceMemType \<Rightarrow> NvBufSurfaceParams \<Rightarrow> nat \<Rightarrow> CUDA_MEMCPY2D \<Rightarrow> CUDA_MEMCPY2D" where
  "nvmm_side is_src mt sp i c =
     (let ptr = dataPtr sp + pp_offset (planeParams sp) i;
          pitch = pp_pitch (planeParams sp) i
      in if mt = NVBUF_MEM_CUDA_PINNED
         then (if is_src
               then c\<lparr>srcMemoryType := CU_MEMORYTYPE_HOST, srcHost := ptr, srcPitch := pitch\<rparr>
               else c\<lparr>dstMemoryType := CU_MEMORYTYPE_HOST, dstHost := ptr, dstPitch := pitch\<rparr>)
         else if mt = NVBUF_MEM_CUDA_UNIFIED
         then (if is_src
               then c\<lparr>srcMemoryType := CU_MEMORYTYPE_UNIFIED, srcDevice := ptr, srcPitch := pitch\<rparr>
               else c\<lparr>dstMemoryType := CU_MEMORYTYPE_UNIFIED, dstDevice := ptr, dstPitch := pitch\<rparr>)
         else (if is_src
               then c\<lparr>srcMemoryType := CU_MEMORYTYPE_DEVICE, srcDevice := ptr, srcPitch := pitch\<rparr>
               else c\<lparr>dstMemoryType := CU_MEMORYTYPE_DEVICE, dstDevice := ptr, dstPitch := pitch\<rparr>))"

text \<open>The same for a plane of a mapped video frame, in CUDA or in system memory.\<close>

definition frame_side ::
    "bool \<Rightarrow> GstCudaMemoryCopyMemType \<Rightarrow> GstBuffer \<Rightarrow> GstVideoInfo \<Rightarrow> nat \<Rightarrow> CUDA_MEMCPY2D \<Rightarrow> CUDA_MEMCPY2D" where
  "frame_side is_src mem_type buf info i c =
     (let c =
            (if is_src
             then (if mem_type = GST_CUDA_MEMORY_COPY_MEM_CUDA
                   then c\<lparr>srcMemoryType := CU_MEMORYTYPE_DEVICE,
                          srcDevice := frame_plane_data buf i\<rparr>
                   else c\<lparr>srcMemoryType := CU_MEMORYTYPE_HOST,
                          srcHost := frame_plane_data buf i\<rparr>)
                  \<lparr>srcPitch := frame_plane_stride buf i\<rparr>
             else (if mem_type = GST_CUDA_MEMORY_COPY_MEM_CUDA
                   then c\<lparr>dstMemoryType := CU_MEMORYTYPE_DEVICE,
                          dstDevice := frame_plane_data buf i\<rparr>
                   else c\<lparr>dstMemoryType := CU_MEMORYTYPE_HOST,
                          dstHost := frame_plane_data buf i\<rparr>)
                  \<lparr>dstPitch := frame_plane_stride buf i\<rparr>)
      in c\<lparr>WidthInBytes := comp_width info i * comp_pstride info i,
            Height := comp_height info i\<rparr>)"

text \<open>
  \<^verbatim>\<open>gst_cuda_memory_copy_map_and_fill_copy2d\<close>: success, the mapping, the descriptors
  and the events.  On the error paths a mapped NVMM buffer is unmapped and the
  \<^verbatim>\<open>map_info\<close> cleared.
\<close>

definition gst_cuda_memory_copy_map_and_fill_copy2d ::
    "driver \<Rightarrow> event list \<Rightarrow> buffer_role \<Rightarrow> GstBuffer \<Rightarrow> GstVideoInfo \<Rightarrow>
     GstCudaMemoryCopyMemType \<Rightarrow> bool \<Rightarrow> (nat \<Rightarrow> CUDA_MEMCPY2D) \<Rightarrow>
     bool \<times> mapping \<times> (nat \<Rightarrow> CUDA_MEMCPY2D) \<times> event list" where
  "gst_cuda_memory_copy_map_and_fill_copy2d drv t role buf info mem_type is_src copy_params =
     (if mem_type = GST_CUDA_MEMORY_COPY_MEM_NVMM
      then
        if \<not> drv t (CallBufferMap role)
        then (False, unmapped, copy_params, t @ [BufferMap role False])
        else
          let t = t @ [BufferMap role True]
          in case surfaceList (surface buf) of
               None \<Rightarrow> (False, unmapped, copy_params, t @ [BufferUnmap role])
             | Some surface_params \<Rightarrow>
                 let plane_params = planeParams surface_params
                 in if num_planes plane_params \<noteq> n_planes info
                    then (False, unmapped, copy_params, t @ [BufferUnmap role])
                    else if memType (surface buf) \<notin>
                              {NVBUF_MEM_DEFAULT, NVBUF_MEM_CUDA_DEVICE,
                               NVBUF_MEM_CUDA_PINNED, NVBUF_MEM_CUDA_UNIFIED}
                    then (False, unmapped, copy_params, t @ [BufferUnmap role])
                    else
                      let copy_params =
                            for_planes (num_planes plane_params)
                              (nvmm_side is_src (memType (surface buf)) surface_params)
                              copy_params;
                          copy_params =
                            for_planes (num_planes plane_params)
                              (\<lambda>i c. c\<lparr>WidthInBytes :=
                                          pp_width plane_params i * pp_bytesPerPix plane_params i,
                                        Height := pp_height plane_params i\<rparr>)
                              copy_params
                      in (True, \<lparr>frame_buffer = False, map_data = True\<rparr>, copy_params, t)
      else
        let map_flags = (if is_src then GST_MAP_READ else GST_MAP_WRITE);
            cuda = (mem_type = GST_CUDA_MEMORY_COPY_MEM_CUDA)
        in if \<not> drv t (CallVideoFrameMap role map_flags cuda)
           then (False, unmapped, copy_params, t @ [VideoFrameMap role map_flags cuda False])
           else (True, \<lparr>frame_buffer = True, map_data = False\<rparr>,
                 for_planes (n_planes info) (frame_side is_src mem_type buf info) copy_params,
                 t @ [VideoFrameMap role map_flags cuda True]))"

definition gst_cuda_memory_copy_unmap :: "buffer_role \<Rightarrow> mapping \<Rightarrow> event list \<Rightarrow> event list" where
  "gst_cuda_memory_copy_unmap role m t =
     (let t = (if frame_buffer m then t @ [VideoFrameUnmap role] else t)
      in if map_data m then t @ [BufferUnmap role] else t)"

subsection \<open>The direct device copy\<close>

text \<open>
  The loop over the planes of \<^verbatim>\<open>gst_cuda_memory_copy_transform_cuda\<close>: the planes still
  to copy, and \<open>ret\<close> so far.  It stops at the first plane whose copy fails.
\<close>

fun copy_planes ::
    "driver \<Rightarrow> (nat \<Rightarrow> CUDA_MEMCPY2D) \<Rightarrow> nat list \<Rightarrow> bool \<Rightarrow> event list \<Rightarrow> bool \<times> event list" where
  "copy_planes drv copy_params [] ret t = (ret, t)"
| "copy_planes drv copy_params (i # planes) ret t =
     (let ret = drv t (CallMemcpy2DAsync i);
          t = t @ [Memcpy2DAsync i (copy_params i) ret]
      in if \<not> ret then (False, t) else copy_planes drv copy_params planes ret t)"

definition gst_cuda_memory_copy_transform_cuda ::
    "driver \<Rightarrow> event list \<Rightarrow> GstBuffer \<Rightarrow> GstVideoInfo \<Rightarrow> GstCudaMemoryCopyMemType \<Rightarrow>
     GstBuffer \<Rightarrow> GstVideoInfo \<Rightarrow> GstCudaMemoryCopyMemType \<Rightarrow> bool \<times> event list" where
  "gst_cuda_memory_copy_transform_cuda drv t inbuf in_info in_type outbuf out_info out_type =
     (let t = t @ [Enter (TRANSFORM_CUDA in_type out_type)];
          (in_ok, in_map, copy_params, t) =
             gst_cuda_memory_copy_map_and_fill_copy2d drv t INBUF inbuf in_info in_type True
               (\<lambda>i. zero_copy_params)
      in if \<not> in_ok then (False, t)
         else
           let (out_ok, out_map, copy_params, t) =
                 gst_cuda_memory_copy_map_and_fill_copy2d drv t OUTBUF outbuf out_info out_type
                   False copy_params
           in if \<not> out_ok then (False, gst_cuda_memory_copy_unmap INBUF in_map t)
              else if \<not> drv t CallContextPush
              then (False,
                    gst_cuda_memory_copy_unmap OUTBUF out_map
                      (gst_cuda_memory_copy_unmap INBUF in_map
                         (t @ [ContextPush False, ContextPop])))
              else
                let (ret, t) = copy_planes drv copy_params [0..<n_planes in_info] False
                                 (t @ [ContextPush True]);
                    t = t @ [StreamSynchronize, ContextPop]
                in (ret,
                    gst_cuda_memory_copy_unmap OUTBUF out_map
                      (gst_cuda_memory_copy_unmap INBUF in_map t)))"

subsection \<open>The GL interop copy\<close>

text \<open>
  \<^verbatim>\<open>ensure_cuda_gl_graphics_resource\<close> for the memory of plane \<open>i\<close> of the GL buffer: the
  resource cached on the memory, or a new one, registered and cached.  The result is
  whether a resource comes back.
\<close>

definition ensure_cuda_gl_graphics_resource ::
    "driver \<Rightarrow> event list \<Rightarrow> GstBuffer \<Rightarrow> nat \<Rightarrow> bool \<times> event list" where
  "ensure_cuda_gl_graphics_resource drv t gl_buf i =
     (if \<not> gst_is_gl_memory_pbo (memories gl_buf ! i) then (False, t)
      else if drv t (CallGetQdata i) then (True, t)
      else
        let t = t @ [GraphicsResourceNew i]
        in if \<not> drv t (CallMemoryMap i)
           then (False, t @ [MemoryMap i False, GraphicsResourceFree i])
           else
             let t = t @ [MemoryMap i True]
             in if \<not> drv t (CallRegisterGLBuffer i)
                then (False, t @ [RegisterGLBuffer i False, MemoryUnmap i,
                                  GraphicsResourceFree i])
                else (True, t @ [RegisterGLBuffer i True, MemoryUnmap i, SetQdata i]))"

text \<open>The first loop of \<^verbatim>\<open>gl_copy_thread_func\<close>: a resource for each plane, and the
  transfer flags or transfers of its PBO.\<close>

fun gl_resources ::
    "driver \<Rightarrow> GstBuffer \<Rightarrow> bool \<Rightarrow> nat list \<Rightarrow> event list \<Rightarrow> bool \<times> event list" where
  "gl_resources drv gl_buf pbo_to_cuda [] t = (True, t)"
| "gl_resources drv gl_buf pbo_to_cuda (i # planes) t =
     (case ensure_cuda_gl_graphics_resource drv t gl_buf i of
        (False, t) \<Rightarrow> (False, t)
      | (True, t) \<Rightarrow>
          gl_resources drv gl_buf pbo_to_cuda planes
            (t @ [if \<not> pbo_to_cuda then NeedUploadDownload i
                  else PboUploadDownloadTransfer i]))"

text \<open>The second loop: map the resource of the plane, copy, unmap.\<close>

fun gl_copy_planes ::
    "driver \<Rightarrow> GstBuffer \<Rightarrow> bool \<Rightarrow> GstVideoInfo \<Rightarrow> GstVideoInfo \<Rightarrow>
     (nat \<Rightarrow> CUDA_MEMCPY2D) \<Rightarrow> nat list \<Rightarrow> event list \<Rightarrow> bool \<times> event list" where
  "gl_copy_planes drv gl_buf pbo_to_cuda in_info out_info copy_params [] t = (True, t)"
| "gl_copy_planes drv gl_buf pbo_to_cuda in_info out_info copy_params (i # planes) t =
     (if \<not> drv t (CallGraphicsResourceMap i)
      then (False, t @ [GraphicsResourceMap i pbo_to_cuda False])
      else
        let t = t @ [GraphicsResourceMap i pbo_to_cuda True]
        in if \<not> drv t (CallGetMappedPointer i)
           then (False, t @ [GetMappedPointer i False, GraphicsResourceUnmap i])
           else
             let t = t @ [GetMappedPointer i True];
                 copy_params =
                   (if pbo_to_cuda
                    then copy_params(i := (copy_params i)
                           \<lparr>srcMemoryType := CU_MEMORYTYPE_DEVICE,
                            srcDevice := resource_dev_ptr gl_buf i,
                            srcPitch := plane_stride in_info i\<rparr>)
                    else copy_params(i := (copy_params i)
                           \<lparr>dstMemoryType := CU_MEMORYTYPE_DEVICE,
                            dstDevice := resource_dev_ptr gl_buf i,
                            dstPitch := plane_stride out_info i\<rparr>));
                 copy_ret = drv t (CallMemcpy2DAsync i);
                 t = t @ [Memcpy2DAsync i (copy_params i) copy_ret, GraphicsResourceUnmap i]
             in if \<not> copy_ret then (False, t)
                else gl_copy_planes drv gl_buf pbo_to_cuda in_info out_info copy_params planes t)"

text \<open>
  \<^verbatim>\<open>gl_copy_thread_func\<close>; the result is \<^verbatim>\<open>data->ret\<close>, or \<open>None\<close> when the
  \<^verbatim>\<open>g_assert\<close> on the number of memories of the GL buffer stops the process.
\<close>

definition gl_copy_thread_func ::
    "driver \<Rightarrow> event list \<Rightarrow> GstBuffer \<Rightarrow> GstVideoInfo \<Rightarrow> GstBuffer \<Rightarrow> GstVideoInfo \<Rightarrow>
     bool \<Rightarrow> GstCudaMemoryCopyMemType \<Rightarrow> bool option \<times> event list" where
  "gl_copy_thread_func drv t inbuf in_info outbuf out_info pbo_to_cuda cuda_mem_type =
     (let ret = drv t CallEnsureGLInterop;
          t = t @ [EnsureGLInterop ret]
      in if \<not> ret then (Some False, t)
         else
           let gl_buf = (if pbo_to_cuda then inbuf else outbuf);
               cuda_role = (if pbo_to_cuda then OUTBUF else INBUF);
               (ok, cuda_map, copy_params, t) =
                 (if pbo_to_cuda
                  then gst_cuda_memory_copy_map_and_fill_copy2d drv t OUTBUF outbuf out_info
                         cuda_mem_type False (\<lambda>i. zero_copy_params)
                  else gst_cuda_memory_copy_map_and_fill_copy2d drv t INBUF inbuf in_info
                         cuda_mem_type True (\<lambda>i. zero_copy_params))
           in if \<not> ok then (Some False, t)
              else if \<not> length (memories gl_buf) \<ge> n_planes in_info then (None, t)
              else if \<not> drv t CallContextPush
              then (Some False, gst_cuda_memory_copy_unmap cuda_role cuda_map
                                  (t @ [ContextPush False]))
              else
                case gl_resources drv gl_buf pbo_to_cuda [0..<n_planes in_info]
                       (t @ [ContextPush True]) of
                  (False, t) \<Rightarrow>
                    (Some False, gst_cuda_memory_copy_unmap cuda_role cuda_map
                                   (t @ [StreamSynchronize]))
                | (True, t) \<Rightarrow>
                    (case gl_copy_planes drv gl_buf pbo_to_cuda in_info out_info copy_params
                            [0..<n_planes in_info] t of
                       (ret, t) \<Rightarrow>
                         (Some ret, gst_cuda_memory_copy_unmap cuda_role cuda_map
                                      (t @ [StreamSynchronize]))))"

text \<open>
  \<^verbatim>\<open>gst_cuda_memory_copy_gl_interop\<close>: the work is handed to the GL thread and waited
  for; \<^verbatim>\<open>data.ret\<close> stays FALSE when the thread does not run it.
\<close>

definition gst_cuda_memory_copy_gl_interop ::
    "driver \<Rightarrow> event list \<Rightarrow> GstBuffer \<Rightarrow> GstVideoInfo \<Rightarrow> GstBuffer \<Rightarrow> GstVideoInfo \<Rightarrow>
     bool \<Rightarrow> GstCudaMemoryCopyMemType \<Rightarrow> bool option \<times> event list" where
  "gst_cuda_memory_copy_gl_interop drv t inbuf in_info outbuf out_info pbo_to_cuda cuda_mem_type =
     (if \<not> (cuda_mem_type = GST_CUDA_MEMORY_COPY_MEM_CUDA \<or>
             cuda_mem_type = GST_CUDA_MEMORY_COPY_MEM_NVMM)
      then (None, t)
      else
        let t = t @ [Enter (GL_INTEROP pbo_to_cuda cuda_mem_type)]
        in if \<not> drv t CallGLContextThreadAdd then (Some False, t)
           else gl_copy_thread_func drv t inbuf in_info outbuf out_info pbo_to_cuda
                  cuda_mem_type)"

subsection \<open>The transform\<close>

text \<open>
  The memory type of one end (the same chain of tests is written twice in
  \<^verbatim>\<open>gst_cuda_memory_copy_transform\<close>, for the input and for the output), with whether
  the end asks for a device copy.
\<close>

definition mem_type_of :: "bool \<Rightarrow> bool \<Rightarrow> GstMemory \<Rightarrow> GstCudaMemoryCopyMemType \<times> bool" where
  "mem_type_of nvmm gl mem =
     (if nvmm then (GST_CUDA_MEMORY_COPY_MEM_NVMM, True)
      else if gst_is_cuda_memory mem then (GST_CUDA_MEMORY_COPY_MEM_CUDA, True)
      else if gl \<and> gst_is_gl_memory_pbo mem then (GST_CUDA_MEMORY_COPY_MEM_GL, False)
      else (GST_CUDA_MEMORY_COPY_MEM_SYSTEM, False))"

definition flow_return :: "bool \<Rightarrow> GstFlowReturn" where
  "flow_return ret = (if ret then GST_FLOW_OK else GST_FLOW_ERROR)"

text \<open>
  The second half of \<^verbatim>\<open>gst_cuda_memory_copy_transform\<close>, from the test of
  \<^verbatim>\<open>use_device_copy\<close> on: the choice of the routine and of the fallback.
\<close>

definition transform_copy ::
    "driver \<Rightarrow> event list \<Rightarrow> GstCudaMemoryCopy \<Rightarrow> GstBuffer \<Rightarrow> GstCudaMemoryCopyMemType \<Rightarrow>
     GstBuffer \<Rightarrow> GstCudaMemoryCopyMemType \<Rightarrow> bool \<Rightarrow> GstFlowReturn option \<times> event list" where
  "transform_copy drv t self inbuf in_type outbuf out_type use_device_copy =
     (let in_info = ctrans_in_info self; out_info = ctrans_out_info self
      in if \<not> use_device_copy
         then (case gst_cuda_memory_copy_transform_sysmem drv t of
                 (ret, t) \<Rightarrow> (Some (flow_return ret), t))
         else if in_type = GST_CUDA_MEMORY_COPY_MEM_GL
         then
           (case gst_cuda_memory_copy_gl_interop drv t inbuf in_info outbuf out_info True
                   out_type of
              (None, t) \<Rightarrow> (None, t)
            | (Some ret, t) \<Rightarrow>
                let (ret, t) =
                      (if \<not> ret
                       then if out_type = GST_CUDA_MEMORY_COPY_MEM_NVMM
                            then gst_cuda_memory_copy_transform_cuda drv t inbuf in_info
                                   GST_CUDA_MEMORY_COPY_MEM_SYSTEM outbuf out_info out_type
                            else (case gst_cuda_memory_copy_transform_sysmem drv t of
                                    (r, t) \<Rightarrow> (\<not> r, t))
                       else (ret, t))
                in (Some (flow_return ret), t))
         else if out_type = GST_CUDA_MEMORY_COPY_MEM_GL
         then
           (case gst_cuda_memory_copy_gl_interop drv t inbuf in_info outbuf out_info False
                   in_type of
              (None, t) \<Rightarrow> (None, t)
            | (Some ret, t) \<Rightarrow>
                let (ret, t) =
                      (if \<not> ret
                       then if in_type = GST_CUDA_MEMORY_COPY_MEM_NVMM
                            then gst_cuda_memory_copy_transform_cuda drv t inbuf in_info
                                   in_type outbuf out_info GST_CUDA_MEMORY_COPY_MEM_SYSTEM
                            else (case gst_cuda_memory_copy_transform_sysmem drv t of
                                    (r, t) \<Rightarrow> (\<not> r, t))
                       else (ret, t))
                in (Some (flow_return ret), t))
         else
           let (ret, t) = gst_cuda_memory_copy_transform_cuda drv t inbuf in_info in_type
                            outbuf out_info out_type;
               (ret, t) =
                 (if \<not> ret \<and> \<not> in_nvmm self \<and> \<not> out_nvmm self
                  then gst_cuda_memory_copy_transform_sysmem drv t
                  else (ret, t))
           in (Some (flow_return ret), t))"

text \<open>
  \<^verbatim>\<open>gst_cuda_memory_copy_transform\<close>: the flow return, or \<open>None\<close> when an assertion of
  the GL path stops the process, and the events.
\<close>

definition gst_cuda_memory_copy_transform ::
    "driver \<Rightarrow> event list \<Rightarrow> GstCudaMemoryCopy \<Rightarrow> GstBuffer \<Rightarrow> GstBuffer \<Rightarrow>
     GstFlowReturn option \<times> event list" where
  "gst_cuda_memory_copy_transform drv t self inbuf outbuf =
     (case memories inbuf of
        [] \<Rightarrow> (Some GST_FLOW_ERROR, t)
      | in_mem # in_rest \<Rightarrow>
          (case memories outbuf of
             [] \<Rightarrow> (Some GST_FLOW_ERROR, t)
           | out_mem # out_rest \<Rightarrow>
               let (in_type, in_device) = mem_type_of (in_nvmm self) (gl_context self) in_mem;
                   (out_type, out_device) = mem_type_of (out_nvmm self) (gl_context self) out_mem
               in transform_copy drv t self inbuf in_type outbuf out_type
                    (in_device \<or> out_device)))"

text \<open>The events of one call: those after the events \<open>t\<close> that were there before it.\<close>

definition emitted :: "event list \<Rightarrow> event list \<Rightarrow> event list" where
  "emitted t t' = drop (length t) t'"

subsection \<open>Invariants of a window\<close>

text \<open>The part of a window that no call changes after its construction.\<close>

definition same_static :: "GstWlWindow \<Rightarrow> GstWlWindow \<Rightarrow> bool" where
  "same_static w w' \<longleftrightarrow>
     display w' = display w \<and> blend_func w' = blend_func w \<and> scale w' = scale w \<and>
     video_viewport w' = video_viewport w \<and> area_viewport w' = area_viewport w \<and>
     shell_surface w' = shell_surface w \<and> area_subsurface w' = area_subsurface w"

text \<open>
  The border of a window: once the flag \<open>no_border_update\<close> is set the display has a
  viewporter and the border surface holds the 1x1 filler; on a display with a viewporter
  the border surface has been given a buffer once when the flag is set, and never before.
\<close>

definition border_inv :: "platform \<Rightarrow> GstWlWindow \<Rightarrow> bool" where
  "border_inv plat w \<longleftrightarrow>
     (no_border_update w \<longrightarrow> viewporter (display w) \<and>
        attached AREA_SURFACE (requests w) = Some (border_filler plat 1 1)) \<and>
     (viewporter (display w) \<longrightarrow>
        length (filter is_area_attach (requests w)) = (if no_border_update w then 1 else 0))"

text \<open>A step that leaves the border alone.\<close>

definition border_kept :: "GstWlWindow \<Rightarrow> GstWlWindow \<Rightarrow> bool" where
  "border_kept w w' \<longleftrightarrow>
     no_border_update w' = no_border_update w \<and>
     filter is_area_attach (requests w') = filter is_area_attach (requests w) \<and>
     attached AREA_SURFACE (requests w') = attached AREA_SURFACE (requests w)"

subsection \<open>Reading the events\<close>

text \<open>A successful mapping of a buffer, and an unmapping of it.\<close>

fun is_map :: "buffer_role \<Rightarrow> event \<Rightarrow> bool" where
  "is_map role (VideoFrameMap r flags cuda ok) = (r = role \<and> ok)"
| "is_map role (BufferMap r ok) = (r = role \<and> ok)"
| "is_map role e = False"

fun is_unmap :: "buffer_role \<Rightarrow> event \<Rightarrow> bool" where
  "is_unmap role (VideoFrameUnmap r) = (r = role)"
| "is_unmap role (BufferUnmap r) = (r = role)"
| "is_unmap role e = False"

text \<open>Every successful mapping of the buffer has its unmapping.\<close>

definition balanced :: "buffer_role \<Rightarrow> event list \<Rightarrow> bool" where
  "balanced role es \<longleftrightarrow> length (filter (is_map role) es) = length (filter (is_unmap role) es)"

text \<open>Every context that was pushed is popped.\<close>

definition popped :: "event list \<Rightarrow> bool" where
  "popped es \<longleftrightarrow>
     length (filter (\<lambda>e. e = ContextPush True) es) \<le> length (filter (\<lambda>e. e = ContextPop) es)"

text \<open>A plane copy, and a plane copy that failed.\<close>

fun is_copy :: "event \<Rightarrow> bool" where
  "is_copy (Memcpy2DAsync i c ok) = True"
| "is_copy e = False"

fun is_failed_copy :: "event \<Rightarrow> bool" where
  "is_failed_copy (Memcpy2DAsync i c ok) = (\<not> ok)"
| "is_failed_copy e = False"

text \<open>The events after the first plane copy that failed.\<close>

definition after_failed_copy :: "event list \<Rightarrow> event list" where
  "after_failed_copy es = tl (dropWhile (\<lambda>e. \<not> is_failed_copy e) es)"

text \<open>The unmapping of a buffer that was mapped as the given memory type.\<close>

definition unmap_event :: "GstCudaMemoryCopyMemType \<Rightarrow> buffer_role \<Rightarrow> event" where
  "unmap_event mem_type role =
     (if mem_type = GST_CUDA_MEMORY_COPY_MEM_NVMM then BufferUnmap role
      else VideoFrameUnmap role)"

text \<open>The successful mapping of a buffer as the given memory type.\<close>

definition map_event :: "GstCudaMemoryCopyMemType \<Rightarrow> buffer_role \<Rightarrow> bool \<Rightarrow> event" where
  "map_event mem_type role is_src =
     (if mem_type = GST_CUDA_MEMORY_COPY_MEM_NVMM then BufferMap role True
      else VideoFrameMap role (if is_src then GST_MAP_READ else GST_MAP_WRITE)
             (mem_type = GST_CUDA_MEMORY_COPY_MEM_CUDA) True)"

text \<open>The events of a mapping that fails: the map fails, or an NVMM surface is mapped,
  rejected and unmapped.\<close>

definition failed_map_events :: "GstCudaMemoryCopyMemType \<Rightarrow> buffer_role \<Rightarrow> bool \<Rightarrow> event list set" where
  "failed_map_events mem_type role is_src =
     {[BufferMap role False], [BufferMap role True, BufferUnmap role],
      [VideoFrameMap role (if is_src then GST_MAP_READ else GST_MAP_WRITE)
         (mem_type = GST_CUDA_MEMORY_COPY_MEM_CUDA) False]}"

text \<open>The events of the loop over the planes: plane copies, of which only the last one
  can have failed, and then the loop reports a failure.\<close>

definition loop_events :: "bool \<Rightarrow> event list \<Rightarrow> bool" where
  "loop_events ret cs \<longleftrightarrow>
     (\<forall>e\<in>set cs. is_copy e) \<and>
     ((\<forall>e\<in>set cs. \<not> is_failed_copy e) \<or>
      (\<not> ret \<and> (\<exists>cs0 e. cs = cs0 @ [e] \<and> is_failed_copy e \<and>
                           (\<forall>e\<in>set cs0. \<not> is_failed_copy e))))"

text \<open>The entry into the staged system-memory copy.\<close>

fun is_sysmem_entry :: "event \<Rightarrow> bool" where
  "is_sysmem_entry (Enter TRANSFORM_SYSMEM) = True"
| "is_sysmem_entry e = False"

text \<open>The address in a side of a descriptor: the host or the device pointer, by the
  memory type.\<close>

definition src_address :: "CUDA_MEMCPY2D \<Rightarrow> nat" where
  "src_address c = (if srcMemoryType c = CU_MEMORYTYPE_HOST then srcHost c else srcDevice c)"

definition dst_address :: "CUDA_MEMCPY2D \<Rightarrow> nat" where
  "dst_address c = (if dstMemoryType c = CU_MEMORYTYPE_HOST then dstHost c else dstDevice c)"

subsection \<open>A tag without its subsystem\<close>

text \<open>
  An end that carries the NVMM tag (in its caps) or the GL tag (in its memory), none of
  whose subsystems is there (the NVMM initialisation failed, there is no GL context), and
  that does not hold CUDA memory.
\<close>

definition tagged_without_subsystem :: "bool \<Rightarrow> bool \<Rightarrow> GstCaps \<Rightarrow> GstMemory \<Rightarrow> bool" where
  "tagged_without_subsystem nvmm_init gl caps mem \<longleftrightarrow>
     (caps_nvmm caps \<or> mem = GL_MEMORY_PBO) \<and>
     \<not> (caps_nvmm caps \<and> nvmm_init) \<and>
     \<not> (mem = GL_MEMORY_PBO \<and> gl) \<and>
     mem \<noteq> CUDA_MEMORY"

subsection \<open>The layout of an NVMM surface in a descriptor\<close>

text \<open>
  The source side of the descriptor \<open>c\<close> of plane \<open>i\<close> is taken from the surface of the
  buffer: the address is the data pointer plus the offset of the plane, the pitch is the
  pitch of the plane.  The same for the destination side, and for the two dimensions.
\<close>

definition from_surface_src :: "GstBuffer \<Rightarrow> nat \<Rightarrow> CUDA_MEMCPY2D \<Rightarrow> bool" where
  "from_surface_src buf i c =
     (case surfaceList (surface buf) of
        None \<Rightarrow> False
      | Some sp \<Rightarrow> src_address c = dataPtr sp + pp_offset (planeParams sp) i \<and>
                   srcPitch c = pp_pitch (planeParams sp) i)"

definition from_surface_dst :: "GstBuffer \<Rightarrow> nat \<Rightarrow> CUDA_MEMCPY2D \<Rightarrow> bool" where
  "from_surface_dst buf i c =
     (case surfaceList (surface buf) of
        None \<Rightarrow> False
      | Some sp \<Rightarrow> dst_address c = dataPtr sp + pp_offset (planeParams sp) i \<and>
                   dstPitch c = pp_pitch (planeParams sp) i)"

definition from_surface_dims :: "GstBuffer \<Rightarrow> nat \<Rightarrow> CUDA_MEMCPY2D \<Rightarrow> bool" where
  "from_surface_dims buf i c =
     (case surfaceList (surface buf) of
        None \<Rightarrow> False
      | Some sp \<Rightarrow> WidthInBytes c =
                     pp_width (planeParams sp) i * pp_bytesPerPix (planeParams sp) i \<and>
                   Height c = pp_height (planeParams sp) i)"


text \<open>The two sides and the dimensions of a descriptor.\<close>

definition src_side :: "CUDA_MEMCPY2D \<Rightarrow> CUmemorytype \<times> nat \<times> nat \<times> nat" where
  "src_side c = (srcMemoryType c, srcHost c, srcDevice c, srcPitch c)"

definition dst_side :: "CUDA_MEMCPY2D \<Rightarrow> CUmemorytype \<times> nat \<times> nat \<times> nat" where
  "dst_side c = (dstMemoryType c, dstHost c, dstDevice c, dstPitch c)"

definition dims :: "CUDA_MEMCPY2D \<Rightarrow> nat \<times> nat" where
  "dims c = (WidthInBytes c, Height c)"

text \<open>
  The descriptors of the plane copies among the events \<open>es\<close> of a copy from a buffer of
  type \<open>in_type\<close> to one of type \<open>out_type\<close>: the plane is one of the input format; the
  source side comes from the surface of an NVMM input; the destination side and, for a
  plane of the output format, the dimensions come from the surface of an NVMM output.
\<close>

definition nvmm_descriptors ::
    "GstCudaMemoryCopyMemType \<Rightarrow> GstBuffer \<Rightarrow> GstVideoInfo \<Rightarrow>
     GstCudaMemoryCopyMemType \<Rightarrow> GstBuffer \<Rightarrow> GstVideoInfo \<Rightarrow> event list \<Rightarrow> bool" where
  "nvmm_descriptors in_type inbuf in_info out_type outbuf out_info es \<longleftrightarrow>
     (\<forall>i c ok. Memcpy2DAsync i c ok \<in> set es \<longrightarrow>
        i < n_planes in_info \<and>
        (in_type = GST_CUDA_MEMORY_COPY_MEM_NVMM \<longrightarrow> from_surface_src inbuf i c) \<and>
        (out_type = GST_CUDA_MEMORY_COPY_MEM_NVMM \<and> i < n_planes out_info \<longrightarrow>
           from_surface_dst outbuf i c \<and> from_surface_dims outbuf i c))"

subsection \<open>Reference drivers, buffers and elements\<close>

text \<open>A driver under which every call succeeds but the listed ones.\<close>

definition driver_failing :: "call list \<Rightarrow> driver" where
  "driver_failing cs t c \<longleftrightarrow> c \<notin> set cs"

text \<open>
  An element with a GL context and neither end NVMM, a buffer of one GL memory and a
  buffer of one CUDA memory, for a one-plane format.
\<close>

definition plain_surface :: NvBufSurface where
  "plain_surface = \<lparr>memType = NVBUF_MEM_DEFAULT, surfaceList = None\<rparr>"

definition gl_element :: GstCudaMemoryCopy where
  "gl_element =
     \<lparr>in_nvmm = False, out_nvmm = False, gl_context = True,
      ctrans_in_info = hd_info, ctrans_out_info = hd_info\<rparr>"

definition gl_buffer :: GstBuffer where
  "gl_buffer =
     \<lparr>memories = [GL_MEMORY_PBO], surface = plain_surface,
      frame_plane_data = (\<lambda>i. 4096), frame_plane_stride = (\<lambda>i. 7680),
      resource_dev_ptr = (\<lambda>i. 8192)\<rparr>"

definition cuda_buffer :: GstBuffer where
  "cuda_buffer =
     \<lparr>memories = [CUDA_MEMORY], surface = plain_surface,
      frame_plane_data = (\<lambda>i. 65536), frame_plane_stride = (\<lambda>i. 8192),
      resource_dev_ptr = (\<lambda>i. 0)\<rparr>"

text \<open>
  An NVMM buffer: its memory is neither CUDA nor GL memory, and it maps to a surface of
  one plane of 1920x1088 pixels of four bytes in device memory, 256 bytes into the
  allocation.  Caps with and without the NVMM feature.
\<close>

definition nvmm_plane_params :: NvBufSurfacePlaneParams where
  "nvmm_plane_params =
     \<lparr>num_planes = 1, pp_width = (\<lambda>i. 1920), pp_height = (\<lambda>i. 1088),
      pp_pitch = (\<lambda>i. 8192), pp_offset = (\<lambda>i. 256), pp_bytesPerPix = (\<lambda>i. 4)\<rparr>"

definition nvmm_buffer :: GstBuffer where
  "nvmm_buffer =
     \<lparr>memories = [OTHER_MEMORY],
      surface = \<lparr>memType = NVBUF_MEM_CUDA_DEVICE,
                 surfaceList = Some \<lparr>dataPtr = 1048576, planeParams = nvmm_plane_params\<rparr>\<rparr>,
      frame_plane_data = (\<lambda>i. 0), frame_plane_stride = (\<lambda>i. 0),
      resource_dev_ptr = (\<lambda>i. 0)\<rparr>"

definition nvmm_caps :: GstCaps where
  "nvmm_caps = [[''memory:NVMM'']]"

definition system_caps :: GstCaps where
  "system_caps = [[''memory:SystemMemory'']]"

text \<open>A two-plane format (NV12 at 1920x1080).\<close>

definition nv12_info :: GstVideoInfo where
  "nv12_info =
     \<lparr>info_width = 1920, info_height = 1080, par_n = 1, par_d = 1, has_alpha = False,
      n_planes = 2, plane_stride = (\<lambda>i. 1920),
      comp_width = (\<lambda>i. if i = 0 then 1920 else 960),
      comp_pstride = (\<lambda>i. if i = 0 then 1 else 2),
      comp_height = (\<lambda>i. if i = 0 then 1080 else 540)\<rparr>"



section \<open>Verification of the Wayland window\<close>

subsection \<open>What each function leaves unchanged\<close>

lemma send_simps [simp]:
  "requests (send r w) = requests w @ [r]"
  "display (send r w) = display w"
  "blend_func (send r w) = blend_func w"
  "scale (send r w) = scale w"
  "video_viewport (send r w) = video_viewport w"
  "area_viewport (send r w) = area_viewport w"
  "no_border_update (send r w) = no_border_update w"
  "shell_surface (send r w) = shell_surface w"
  "area_subsurface (send r w) = area_subsurface w"
  "video_width (send r w) = video_width w"
  "video_height (send r w) = video_height w"
  "render_rectangle (send r w) = render_rectangle w"
  "video_rectangle (send r w) = video_rectangle w"
  "src_x (send r w) = src_x w"
  "src_y (send r w) = src_y w"
  "src_width (send r w) = src_width w"
  "src_height (send r w) = src_height w"
  by (simp_all add: send_def)

lemma attached_append [simp]:
  "attached s (rs @ rs') = foldl (attach_step s) (attached s rs) rs'"
  by (simp add: attached_def)

lemma resize_static:
  "gst_wl_window_resize_video_surface plat w c = Some w' \<Longrightarrow> same_static w w'"
  by (auto simp: gst_wl_window_resize_video_surface_def same_static_def Let_def
           gst_wl_window_is_toplevel_def split: if_splits)

lemma resize_border:
  "gst_wl_window_resize_video_surface plat w c = Some w' \<Longrightarrow>
     no_border_update w' = no_border_update w \<and>
     filter is_area_attach (requests w') = filter is_area_attach (requests w) \<and>
     attached AREA_SURFACE (requests w') = attached AREA_SURFACE (requests w)"
  by (auto simp: gst_wl_window_resize_video_surface_def Let_def attached_def
           gst_wl_window_is_toplevel_def split: if_splits)

lemma resize_total:
  "scale w \<noteq> 0 \<Longrightarrow> \<exists>w'. gst_wl_window_resize_video_surface plat w c = Some w'"
  by (simp add: gst_wl_window_resize_video_surface_def Let_def)

lemma update_borders_static:
  "same_static w (gst_wl_window_update_borders plat w)"
  by (auto simp: gst_wl_window_update_borders_def same_static_def Let_def)

lemma update_borders_skip:
  "no_border_update w \<Longrightarrow> gst_wl_window_update_borders plat w = w"
  by (simp add: gst_wl_window_update_borders_def)

lemma update_borders_fresh:
  "\<not> no_border_update w \<Longrightarrow>
     requests (gst_wl_window_update_borders plat w) =
       requests w @ [SurfaceAttach AREA_SURFACE (Some
          (if viewporter (display w) then border_filler plat 1 1
           else border_filler plat (rect_w (render_rectangle w)) (rect_h (render_rectangle w))))] \<and>
     no_border_update (gst_wl_window_update_borders plat w) = viewporter (display w)"
  by (auto simp: gst_wl_window_update_borders_def Let_def border_filler_def border_format_def
        border_info_size_def)

lemma update_borders_fields [simp]:
  "video_width (gst_wl_window_update_borders plat w) = video_width w"
  "render_rectangle (gst_wl_window_update_borders plat w) = render_rectangle w"
  "scale (gst_wl_window_update_borders plat w) = scale w"
  "display (gst_wl_window_update_borders plat w) = display w"
  "blend_func (gst_wl_window_update_borders plat w) = blend_func w"
  "video_viewport (gst_wl_window_update_borders plat w) = video_viewport w"
  "area_viewport (gst_wl_window_update_borders plat w) = area_viewport w"
  "shell_surface (gst_wl_window_update_borders plat w) = shell_surface w"
  "area_subsurface (gst_wl_window_update_borders plat w) = area_subsurface w"
  by (auto simp: gst_wl_window_update_borders_def Let_def)

lemma set_render_rectangle_total:
  "scale w \<noteq> 0 \<or> video_width w = 0 \<Longrightarrow> \<exists>w'. gst_wl_window_set_render_rectangle plat w x y rw rh = Some w'"
  by (auto simp: gst_wl_window_set_render_rectangle_def Let_def
      gst_wl_window_resize_video_surface_def split: option.splits if_splits)

lemma set_render_rectangle_static:
  "gst_wl_window_set_render_rectangle plat w x y rw rh = Some w' \<Longrightarrow> same_static w w'"
  by (auto simp: gst_wl_window_set_render_rectangle_def Let_def same_static_def
      split: option.splits if_splits dest!: resize_static)

lemma set_render_rectangle_border:
  assumes "gst_wl_window_set_render_rectangle plat w x y rw rh = Some w'"
  shows "no_border_update w \<Longrightarrow>
           no_border_update w' \<and>
           filter is_area_attach (requests w') = filter is_area_attach (requests w) \<and>
           attached AREA_SURFACE (requests w') = attached AREA_SURFACE (requests w)"
    and "\<not> no_border_update w \<Longrightarrow>
           no_border_update w' = viewporter (display w) \<and>
           filter is_area_attach (requests w') = filter is_area_attach (requests w) @
             [SurfaceAttach AREA_SURFACE (Some
               (if viewporter (display w) then border_filler plat 1 1
                else border_filler plat rw rh))] \<and>
           attached AREA_SURFACE (requests w') = Some
               (if viewporter (display w) then border_filler plat 1 1
                else border_filler plat rw rh)"
  using assms
  by (auto simp: gst_wl_window_set_render_rectangle_def Let_def update_borders_skip
      update_borders_fresh
      split: option.splits if_splits dest!: resize_border)

lemma set_opaque_fields [simp]:
  "no_border_update (gst_wl_window_set_opaque plat w i) = no_border_update w"
  "filter is_area_attach (requests (gst_wl_window_set_opaque plat w i)) =
     filter is_area_attach (requests w)"
  "attached AREA_SURFACE (requests (gst_wl_window_set_opaque plat w i)) =
     attached AREA_SURFACE (requests w)"
  "display (gst_wl_window_set_opaque plat w i) = display w"
  "blend_func (gst_wl_window_set_opaque plat w i) = blend_func w"
  "video_viewport (gst_wl_window_set_opaque plat w i) = video_viewport w"
  "area_viewport (gst_wl_window_set_opaque plat w i) = area_viewport w"
  "shell_surface (gst_wl_window_set_opaque plat w i) = shell_surface w"
  "area_subsurface (gst_wl_window_set_opaque plat w i) = area_subsurface w"
  "scale (gst_wl_window_set_opaque plat w i) = scale w"
  "video_rectangle (gst_wl_window_set_opaque plat w i) = video_rectangle w"
  "render_rectangle (gst_wl_window_set_opaque plat w i) = render_rectangle w"
  by (auto simp: gst_wl_window_set_opaque_def same_static_def)

lemma render_static:
  "gst_wl_window_render plat w b i = Some w' \<Longrightarrow> same_static w w'"
  by (auto simp: gst_wl_window_render_def Let_def same_static_def
      split: option.splits if_splits dest!: resize_static)

lemma render_kept:
  "gst_wl_window_render plat w b i = Some w' \<Longrightarrow> border_kept w w'"
  by (auto simp: gst_wl_window_render_def Let_def border_kept_def
      split: option.splits if_splits dest!: resize_border)

lemma set_source_crop_static:
  "same_static w (gst_wl_window_set_source_crop w c)"
  by (auto simp: gst_wl_window_set_source_crop_def same_static_def split: option.splits)

lemma set_source_crop_kept:
  "border_kept w (gst_wl_window_set_source_crop w c)"
  by (auto simp: gst_wl_window_set_source_crop_def border_kept_def split: option.splits)

lemma set_alpha_static:
  "gst_wl_window_set_alpha plat (Some w) a = Some w' \<Longrightarrow> same_static w w'"
  by (auto simp: gst_wl_window_set_alpha_def same_static_def Let_def split: if_splits)

lemma set_alpha_kept:
  "gst_wl_window_set_alpha plat (Some w) a = Some w' \<Longrightarrow> border_kept w w'"
  by (auto simp: gst_wl_window_set_alpha_def border_kept_def Let_def split: if_splits)

lemma border_kept_inv:
  "border_kept w w' \<Longrightarrow> same_static w w' \<Longrightarrow> border_inv plat w \<Longrightarrow> border_inv plat w'"
  by (simp add: border_kept_def border_inv_def same_static_def)

lemma set_render_rectangle_inv:
  assumes "gst_wl_window_set_render_rectangle plat w x y rw rh = Some w'" "border_inv plat w"
  shows "border_inv plat w'"
proof -
  have d: "display w' = display w"
    using set_render_rectangle_static[OF assms(1)] by (simp add: same_static_def)
  show ?thesis
  proof (cases "no_border_update w")
    case True
    with set_render_rectangle_border(1)[OF assms(1)] assms(2) d show ?thesis
      by (simp add: border_inv_def)
  next
    case False
    with set_render_rectangle_border(2)[OF assms(1)] assms(2) d show ?thesis
      by (auto simp: border_inv_def)
  qed
qed

lemma set_render_rectangle_flag:
  assumes "gst_wl_window_set_render_rectangle plat w x y rw rh = Some w'" "no_border_update w"
  shows "border_kept w w'"
  using set_render_rectangle_border(1)[OF assms] assms(2) by (simp add: border_kept_def)

lemma handle_configure_static:
  "handle_configure plat w cw ch = Some w' \<Longrightarrow> same_static w w'"
  by (auto simp: handle_configure_def same_static_def split: if_splits
      dest!: set_render_rectangle_static)

lemma handle_configure_inv:
  "handle_configure plat w cw ch = Some w' \<Longrightarrow> border_inv plat w \<Longrightarrow> border_inv plat w'"
  by (auto simp: handle_configure_def split: if_splits dest: set_render_rectangle_inv)

lemma handle_configure_flag:
  "handle_configure plat w cw ch = Some w' \<Longrightarrow> no_border_update w \<Longrightarrow> border_kept w w'"
  by (auto simp: handle_configure_def border_kept_def split: if_splits
        dest: set_render_rectangle_flag)

subsection \<open>The life of a window keeps the invariants\<close>

lemma window_call_static:
  "window_call plat w c = Some w' \<Longrightarrow> same_static w w'"
proof (cases c)
  case (SetRenderRectangle x y rw rh)
  then show "window_call plat w c = Some w' \<Longrightarrow> same_static w w'"
    by (simp add: set_render_rectangle_static)
next
  case (Render b i)
  then show "window_call plat w c = Some w' \<Longrightarrow> same_static w w'"
    by (simp add: render_static)
next
  case (SetSourceCrop cr)
  then show "window_call plat w c = Some w' \<Longrightarrow> same_static w w'"
    using set_source_crop_static[of w cr] by auto
next
  case (SetAlpha a)
  then show "window_call plat w c = Some w' \<Longrightarrow> same_static w w'"
    by (simp add: set_alpha_static)
next
  case (Configure cw ch)
  then show "window_call plat w c = Some w' \<Longrightarrow> same_static w w'"
    by (simp add: handle_configure_static)
qed

lemma window_call_inv:
  "window_call plat w c = Some w' \<Longrightarrow> border_inv plat w \<Longrightarrow> border_inv plat w'"
proof (cases c)
  case (SetRenderRectangle x y rw rh)
  then show "window_call plat w c = Some w' \<Longrightarrow> border_inv plat w \<Longrightarrow> border_inv plat w'"
    by (auto dest: set_render_rectangle_inv)
next
  case (Render b i)
  then show "window_call plat w c = Some w' \<Longrightarrow> border_inv plat w \<Longrightarrow> border_inv plat w'"
    using border_kept_inv[of w w' plat] by (auto dest: render_kept render_static)
next
  case (SetSourceCrop cr)
  then show "window_call plat w c = Some w' \<Longrightarrow> border_inv plat w \<Longrightarrow> border_inv plat w'"
    using border_kept_inv[OF set_source_crop_kept set_source_crop_static, of plat w cr] by auto
next
  case (SetAlpha a)
  then show "window_call plat w c = Some w' \<Longrightarrow> border_inv plat w \<Longrightarrow> border_inv plat w'"
    using border_kept_inv[of w w' plat] by (auto dest: set_alpha_kept set_alpha_static)
next
  case (Configure cw ch)
  then show "window_call plat w c = Some w' \<Longrightarrow> border_inv plat w \<Longrightarrow> border_inv plat w'"
    by (auto dest: handle_configure_inv)
qed

lemma window_call_flag:
  "window_call plat w c = Some w' \<Longrightarrow> no_border_update w \<Longrightarrow> border_kept w w'"
proof (cases c)
  case (SetRenderRectangle x y rw rh)
  then show "window_call plat w c = Some w' \<Longrightarrow> no_border_update w \<Longrightarrow> border_kept w w'"
    by (auto dest: set_render_rectangle_flag)
next
  case (Render b i)
  then show "window_call plat w c = Some w' \<Longrightarrow> no_border_update w \<Longrightarrow> border_kept w w'"
    by (auto dest: render_kept)
next
  case (SetSourceCrop cr)
  then show "window_call plat w c = Some w' \<Longrightarrow> no_border_update w \<Longrightarrow> border_kept w w'"
    using set_source_crop_kept[of w cr] by auto
next
  case (SetAlpha a)
  then show "window_call plat w c = Some w' \<Longrightarrow> no_border_update w \<Longrightarrow> border_kept w w'"
    by (auto dest: set_alpha_kept)
next
  case (Configure cw ch)
  then show "window_call plat w c = Some w' \<Longrightarrow> no_border_update w \<Longrightarrow> border_kept w w'"
    by (auto dest: handle_configure_flag)
qed

lemma window_calls_static:
  "window_calls plat w cs = Some w' \<Longrightarrow> same_static w w'"
proof (induction cs arbitrary: w)
  case Nil
  then show ?case by (simp add: same_static_def)
next
  case (Cons c cs)
  then show ?case
    by (auto split: option.splits dest!: window_call_static simp: same_static_def)
qed

lemma window_calls_inv:
  "window_calls plat w cs = Some w' \<Longrightarrow> border_inv plat w \<Longrightarrow> border_inv plat w'"
  by (induction cs arbitrary: w) (auto split: option.splits dest: window_call_inv)

lemma window_calls_flag:
  "window_calls plat w cs = Some w' \<Longrightarrow> no_border_update w \<Longrightarrow> border_kept w w'"
proof (induction cs arbitrary: w)
  case Nil
  then show ?case by (simp add: border_kept_def)
next
  case (Cons c cs)
  from Cons.prems obtain w1 where 1: "window_call plat w c = Some w1"
    and 2: "window_calls plat w1 cs = Some w'"
    by (auto split: option.splits)
  from window_call_flag[OF 1 Cons.prems(2)] have k: "border_kept w w1" .
  then have "no_border_update w1" using Cons.prems(2) by (simp add: border_kept_def)
  from Cons.IH[OF 2 this] k show ?case by (simp add: border_kept_def)
qed

lemma window_calls_append:
  "window_calls plat w (cs @ cs') =
     (case window_calls plat w cs of None \<Rightarrow> None | Some w1 \<Rightarrow> window_calls plat w1 cs')"
  by (induction cs arbitrary: w) (auto split: option.splits)

lemma new_internal_facts:
  "display (gst_wl_window_new_internal plat d) = d"
  "blend_func (gst_wl_window_new_internal plat d) = alpha_compositing d"
  "video_viewport (gst_wl_window_new_internal plat d) = viewporter d"
  "area_viewport (gst_wl_window_new_internal plat d) = viewporter d"
  "no_border_update (gst_wl_window_new_internal plat d) = False"
  "filter is_area_attach (requests (gst_wl_window_new_internal plat d)) = []"
  "attached AREA_SURFACE (requests (gst_wl_window_new_internal plat d)) = None"
  by (auto simp: gst_wl_window_new_internal_def gst_wl_window_init_def Let_def attached_def
      split: option.splits)

lemma window_born_facts:
  assumes "window_born plat d info = Some w"
  shows "display w = d" "blend_func w = alpha_compositing d"
        "video_viewport w = viewporter d" "area_viewport w = viewporter d"
        "border_inv plat w"
proof -
  have "display w = d \<and> blend_func w = alpha_compositing d \<and>
        video_viewport w = viewporter d \<and> area_viewport w = viewporter d \<and> border_inv plat w"
  proof (cases info)
    case None
    with assms show ?thesis
      by (auto simp: window_born_def gst_wl_window_new_in_surface_def new_internal_facts
          border_inv_def)
  next
    case (Some i)
    let ?w0 = "send ShellSurfaceSetToplevel ((gst_wl_window_new_internal plat d)\<lparr>shell_surface := True\<rparr>)"
    from Some assms obtain x y rw rh where
      r: "gst_wl_window_set_render_rectangle plat ?w0 x y rw rh = Some w"
      by (auto simp: window_born_def gst_wl_window_new_toplevel_def Let_def
          split: option.splits if_splits)
    have inv0: "border_inv plat ?w0"
      by (simp add: border_inv_def new_internal_facts)
    from set_render_rectangle_static[OF r] set_render_rectangle_inv[OF r inv0]
    show ?thesis by (simp add: same_static_def new_internal_facts)
  qed
  then show "display w = d" "blend_func w = alpha_compositing d"
        "video_viewport w = viewporter d" "area_viewport w = viewporter d"
        "border_inv plat w" by simp_all
qed

lemma window_life_facts:
  assumes "window_life plat d info cs = Some w"
  shows "display w = d" "blend_func w = alpha_compositing d"
        "video_viewport w = viewporter d" "area_viewport w = viewporter d"
        "border_inv plat w"
proof -
  from assms obtain w0 where b: "window_born plat d info = Some w0"
    and c: "window_calls plat w0 cs = Some w"
    by (auto simp: window_life_def split: option.splits)
  from window_born_facts[OF b] window_calls_static[OF c] window_calls_inv[OF c]
  show "display w = d" "blend_func w = alpha_compositing d"
        "video_viewport w = viewporter d" "area_viewport w = viewporter d"
        "border_inv plat w" by (simp_all add: same_static_def)
qed

lemma window_life_append:
  "window_life plat d info cs = Some w \<Longrightarrow> window_calls plat w cs' = Some w' \<Longrightarrow>
   window_life plat d info (cs @ cs') = Some w'"
  by (auto simp: window_life_def window_calls_append split: option.splits)

text \<open>With a scale that is not zero every call returns, and so does every run.\<close>

lemma render_total:
  "scale w \<noteq> 0 \<Longrightarrow> \<exists>w'. gst_wl_window_render plat w b i = Some w'"
  by (auto simp: gst_wl_window_render_def Let_def gst_wl_window_resize_video_surface_def
        split: option.splits)

lemma window_call_total:
  "scale w \<noteq> 0 \<Longrightarrow> \<exists>w'. window_call plat w c = Some w'"
proof (cases c)
  case (SetRenderRectangle x y rw rh)
  then show "scale w \<noteq> 0 \<Longrightarrow> \<exists>w'. window_call plat w c = Some w'"
    using set_render_rectangle_total[of w plat x y rw rh] by simp
next
  case (Render b i)
  then show "scale w \<noteq> 0 \<Longrightarrow> \<exists>w'. window_call plat w c = Some w'"
    using render_total[of w plat b i] by simp
next
  case (SetSourceCrop cr)
  then show "scale w \<noteq> 0 \<Longrightarrow> \<exists>w'. window_call plat w c = Some w'" by simp
next
  case (SetAlpha a)
  then show "scale w \<noteq> 0 \<Longrightarrow> \<exists>w'. window_call plat w c = Some w'"
    by (simp add: gst_wl_window_set_alpha_def Let_def)
next
  case (Configure cw ch)
  then show "scale w \<noteq> 0 \<Longrightarrow> \<exists>w'. window_call plat w c = Some w'"
    using set_render_rectangle_total[of w plat 0 0 cw ch]
    by (simp add: handle_configure_def)
qed

lemma window_calls_total:
  "scale w \<noteq> 0 \<Longrightarrow> \<exists>w'. window_calls plat w cs = Some w'"
proof (induction cs arbitrary: w)
  case Nil
  then show ?case by simp
next
  case (Cons c cs)
  from window_call_total[OF Cons.prems] obtain w1 where 1: "window_call plat w c = Some w1"
    by blast
  from window_call_static[OF 1] Cons.prems have "scale w1 \<noteq> 0"
    by (simp add: same_static_def)
  from Cons.IH[OF this] 1 show ?case by simp
qed

text \<open>The equations that evaluate a window on concrete calls.\<close>

lemmas window_eval =
  window_life_def window_born_def gst_wl_window_new_in_surface_def
  gst_wl_window_new_internal_def gst_wl_window_init_def scaled_display_def plain_display_def
  reference_platform_def send_def Let_def gst_wl_window_set_source_crop_def
  gst_wl_window_render_def gst_wl_window_resize_video_surface_def computeFit_def c_div_def
  scale_div_def to_gint_def to_guint_def unsigned_platform_def
  wl_fixed_from_int_def zero_rectangle_def hd_info_def gst_util_uint64_scale_int_round_def
  gst_wl_window_set_opaque_def gst_wl_window_is_toplevel_def
  gst_wl_window_set_render_rectangle_def gst_wl_window_update_borders_def
  border_info_size_def attached_def

subsection \<open>Letterboxing\<close>

text \<open>
  The side that is scaled: it is the quotient rounded down, so it fits, and it misses the
  exact ratio by less than one pixel.
\<close>

lemma fit_wide:
  fixes cw ch bw bh :: int
  assumes "0 < cw" "0 < ch" "0 < bw" "0 < bh" "bw * ch < cw * bh"
  defines "h \<equiv> (bw * ch) div cw"
  shows "0 \<le> h" "h < bh" "h * cw \<le> bw * ch" "bw * ch < h * cw + cw"
proof -
  show 0: "0 \<le> h" using assms by (simp add: h_def pos_imp_zdiv_nonneg_iff)
  have m: "bw * ch = cw * h + (bw * ch) mod cw" by (simp add: h_def)
  have r: "0 \<le> (bw * ch) mod cw" "(bw * ch) mod cw < cw" using assms(1) by simp_all
  show 3: "h * cw \<le> bw * ch" using m r by (simp add: mult.commute)
  show "bw * ch < h * cw + cw" using m r by (simp add: mult.commute)
  have "cw * h < cw * bh" using 3 assms(5) by (simp add: mult.commute)
  then show "h < bh" using assms(1) by simp
qed

lemma computeFit_letterbox:
  assumes "0 < rect_w c" "0 < rect_h c" "0 < rect_w b" "0 < rect_h b"
  shows "rect_inside (computeFit c b True) b \<and> rect_centered (computeFit c b True) b \<and>
         aspect_kept (computeFit c b True) c \<and> spans_one_axis (computeFit c b True) b"
proof -
  consider (wide) "rect_w b * rect_h c < rect_w c * rect_h b"
    | (tall) "rect_w c * rect_h b < rect_w b * rect_h c"
    | (same) "rect_w c * rect_h b = rect_w b * rect_h c" by linarith
  then show ?thesis
  proof cases
    case wide
    note k = fit_wide[OF assms(1,2,3,4) wide]
    from wide k assms show ?thesis
      by (simp add: computeFit_def Let_def rect_inside_def rect_centered_def aspect_kept_def
          spans_one_axis_def) linarith
  next
    case tall
    then have t: "rect_h b * rect_w c < rect_h c * rect_w b" by (simp add: mult.commute)
    note k = fit_wide[OF assms(2,1,4,3) t]
    from tall k assms show ?thesis
      by (simp add: computeFit_def Let_def rect_inside_def rect_centered_def aspect_kept_def
          spans_one_axis_def) linarith
  next
    case same
    with assms show ?thesis
      by (simp add: computeFit_def Let_def rect_inside_def rect_centered_def aspect_kept_def
          spans_one_axis_def mult.commute)
  qed
qed

text \<open>
  Claim C2, as amended.  With letterboxing requested (the window has a video viewport, so
  \<^verbatim>\<open>gst_wl_window_resize_video_surface\<close> asks for scaling) and the geometry computed as
  the spec describes it, for every render rectangle and every video size whose four
  dimensions are strictly positive, the video rectangle stored by the function lies
  inside the bounding rectangle, is centred in it up to one pixel, keeps the aspect ratio
  of the video up to the rounding of one side, and touches both edges of the bounding
  rectangle on at least one axis.
\<close>

theorem C2_letterbox_geometry:
  assumes "gst_video_sink_center_rect plat = computeFit" and "video_viewport w"
    and "scale w \<noteq> 0"
    and "0 < video_width w" and "0 < video_height w"
    and "0 < rect_w (render_rectangle w)" and "0 < rect_h (render_rectangle w)"
  shows "\<exists>w'. gst_wl_window_resize_video_surface plat w commit = Some w' \<and>
           rect_inside (video_rectangle w')
             (zero_rectangle\<lparr>rect_w := rect_w (render_rectangle w),
                             rect_h := rect_h (render_rectangle w)\<rparr>) \<and>
           rect_centered (video_rectangle w')
             (zero_rectangle\<lparr>rect_w := rect_w (render_rectangle w),
                             rect_h := rect_h (render_rectangle w)\<rparr>) \<and>
           aspect_kept (video_rectangle w')
             (zero_rectangle\<lparr>rect_w := video_width w, rect_h := video_height w\<rparr>) \<and>
           spans_one_axis (video_rectangle w')
             (zero_rectangle\<lparr>rect_w := rect_w (render_rectangle w),
                             rect_h := rect_h (render_rectangle w)\<rparr>)"
proof -
  let ?c = "zero_rectangle\<lparr>rect_w := video_width w, rect_h := video_height w\<rparr>"
  let ?b = "zero_rectangle\<lparr>rect_w := rect_w (render_rectangle w),
                             rect_h := rect_h (render_rectangle w)\<rparr>"
  have "\<exists>w'. gst_wl_window_resize_video_surface plat w commit = Some w' \<and>
          video_rectangle w' = computeFit ?c ?b True"
    using assms(1,2,3) by (simp add: gst_wl_window_resize_video_surface_def Let_def)
  moreover have "rect_inside (computeFit ?c ?b True) ?b \<and>
      rect_centered (computeFit ?c ?b True) ?b \<and>
      aspect_kept (computeFit ?c ?b True) ?c \<and> spans_one_axis (computeFit ?c ?b True) ?b"
    using assms(4-7) by (intro computeFit_letterbox) simp_all
  ultimately show ?thesis by auto
qed

theorem C2_letterbox_geometry_witness:
  "gst_video_sink_center_rect reference_platform = computeFit \<and>
   (\<exists>w'. gst_wl_window_resize_video_surface reference_platform
            ((gst_wl_window_new_in_surface reference_platform scaled_display)
               \<lparr>render_rectangle := \<lparr>rect_x = 0, rect_y = 0, rect_w = 1280, rect_h = 1280\<rparr>,
                video_width := 1920, video_height := 1080\<rparr>) True = Some w' \<and>
          video_rectangle w' = \<lparr>rect_x = 0, rect_y = 280, rect_w = 1280, rect_h = 720\<rparr> \<and>
          rect_inside (video_rectangle w')
            \<lparr>rect_x = 0, rect_y = 0, rect_w = 1280, rect_h = 1280\<rparr> \<and>
          rect_centered (video_rectangle w')
            \<lparr>rect_x = 0, rect_y = 0, rect_w = 1280, rect_h = 1280\<rparr> \<and>
          aspect_kept (video_rectangle w')
            \<lparr>rect_x = 0, rect_y = 0, rect_w = 1920, rect_h = 1080\<rparr> \<and>
          spans_one_axis (video_rectangle w')
            \<lparr>rect_x = 0, rect_y = 0, rect_w = 1280, rect_h = 1280\<rparr>)"
  using C2_letterbox_geometry[of reference_platform
      "(gst_wl_window_new_in_surface reference_platform scaled_display)
               \<lparr>render_rectangle := \<lparr>rect_x = 0, rect_y = 0, rect_w = 1280, rect_h = 1280\<rparr>,
                video_width := 1920, video_height := 1080\<rparr>" True]
  by (simp add: window_eval)

text \<open>
  Claim C2 as it is stated asks for a rectangle that touches an edge of the bounding
  rectangle on each axis.  A 1920x1080 video in a 1280x1280 render rectangle is given the
  rectangle of 1280x720 at (0, 280), with borders of 280 above and below: on the vertical
  axis it touches neither edge.
\<close>

theorem C2_touching_each_axis_counterexample:
  "map_option video_rectangle
     (window_life reference_platform scaled_display None
        [SetRenderRectangle 0 0 1280 1280, Render (Some 0) (Some hd_info)]) =
     Some \<lparr>rect_x = 0, rect_y = 280, rect_w = 1280, rect_h = 720\<rparr> \<and>
   \<not> touches_each_axis \<lparr>rect_x = 0, rect_y = 280, rect_w = 1280, rect_h = 720\<rparr>
        \<lparr>rect_x = 0, rect_y = 0, rect_w = 1280, rect_h = 1280\<rparr>"
  by (simp add: window_eval touches_each_axis_def)

subsection \<open>Alpha\<close>

text \<open>
  Claim C7.  On a window of a display that supports alpha compositing, at any moment of
  its life, \<^verbatim>\<open>gst_wl_window_set_alpha\<close> sends the alpha coefficient and then selects the
  blending equation: from-source blending when the value is below 1.0, premultiplied
  blending when the value is 1.0.  Nothing else is sent and no field of the window
  changes.
\<close>

theorem C7_set_alpha_selects_blending:
  assumes "alpha_compositing d" and "window_life plat d info cs = Some w"
  shows "(gfloat_less_one alpha \<longrightarrow>
            gst_wl_window_set_alpha plat (Some w) alpha =
              Some (w\<lparr>requests := requests w @
                      [BlendingSetAlpha (wl_fixed_from_double plat alpha),
                       BlendingSetBlending ZWP_BLENDING_V1_BLENDING_EQUATION_FROMSOURCE]\<rparr>)) \<and>
         (alpha = Finite 1 \<longrightarrow>
            gst_wl_window_set_alpha plat (Some w) alpha =
              Some (w\<lparr>requests := requests w @
                      [BlendingSetAlpha (wl_fixed_from_double plat alpha),
                       BlendingSetBlending ZWP_BLENDING_V1_BLENDING_EQUATION_PREMULTIPLIED]\<rparr>))"
proof -
  have "blend_func w" using window_life_facts(2)[OF assms(2)] assms(1) by simp
  then show ?thesis
    by (auto simp: gst_wl_window_set_alpha_def send_def Let_def)
qed

theorem C7_set_alpha_selects_blending_witness:
  "alpha_compositing scaled_display \<and>
   window_life reference_platform scaled_display None [] =
     Some (gst_wl_window_new_in_surface reference_platform scaled_display) \<and>
   gfloat_less_one (Finite (1/2)) \<and>
   gst_wl_window_set_alpha reference_platform
       (Some (gst_wl_window_new_in_surface reference_platform scaled_display)) (Finite (1/2)) =
     Some ((gst_wl_window_new_in_surface reference_platform scaled_display)
             \<lparr>requests := requests (gst_wl_window_new_in_surface reference_platform scaled_display) @
                [BlendingSetAlpha 128,
                 BlendingSetBlending ZWP_BLENDING_V1_BLENDING_EQUATION_FROMSOURCE]\<rparr>) \<and>
   gst_wl_window_set_alpha reference_platform
       (Some (gst_wl_window_new_in_surface reference_platform scaled_display)) (Finite 1) =
     Some ((gst_wl_window_new_in_surface reference_platform scaled_display)
             \<lparr>requests := requests (gst_wl_window_new_in_surface reference_platform scaled_display) @
                [BlendingSetAlpha 256,
                 BlendingSetBlending ZWP_BLENDING_V1_BLENDING_EQUATION_PREMULTIPLIED]\<rparr>)"
proof -
  have a: "alpha_compositing scaled_display" by (simp add: scaled_display_def)
  have l: "window_life reference_platform scaled_display None [] =
     Some (gst_wl_window_new_in_surface reference_platform scaled_display)"
    by (simp add: window_life_def window_born_def)
  have f: "wl_fixed_from_double reference_platform (Finite (1/2)) = 128"
          "wl_fixed_from_double reference_platform (Finite 1) = 256"
    by (simp_all add: reference_platform_def)
  from C7_set_alpha_selects_blending[OF a l, of "Finite (1/2)"]
       C7_set_alpha_selects_blending[OF a l, of "Finite 1"] a l f
  show ?thesis by simp
qed

subsection \<open>Source crop\<close>

text \<open>Without crop metadata only the width of the source crop changes, to -1.\<close>

lemma set_source_crop_none:
  "gst_wl_window_set_source_crop w None = w\<lparr>src_width := - 1\<rparr>"
  by (simp add: gst_wl_window_set_source_crop_def)

text \<open>
  With a scale of 1 the next geometry computation sets no source viewport, whichever
  division the declarations select.
\<close>

lemma resize_unset_crop_scale_one:
  assumes "scale w = 1" and "src_width w = - 1"
      and "gst_wl_window_resize_video_surface plat w commit = Some w'"
  shows "filter is_viewport_source (requests w') = filter is_viewport_source (requests w)"
  using assms
  by (auto simp: gst_wl_window_resize_video_surface_def Let_def c_div_def scale_div_def
        to_gint_def to_guint_def wl_fixed_from_int_def
        gst_wl_window_is_toplevel_def split: if_splits)

text \<open>
  With a larger scale the signed division turns the -1 into 0 before the comparison with
  \<^verbatim>\<open>wl_fixed_from_int (-1)\<close>, and a source viewport of width 0 is set.
\<close>

lemma resize_unset_crop_scaled:
  assumes "\<not> scale_division_unsigned plat"
      and "2 \<le> scale w" and "src_width w = - 1" and "video_viewport w"
      and "gst_wl_window_resize_video_surface plat w commit = Some w'"
  shows "filter is_viewport_source (requests w') =
           filter is_viewport_source (requests w) @
             [ViewportSetSource VIDEO_VIEWPORT
                (wl_fixed_from_int (c_div (src_x w) (scale w)))
                (wl_fixed_from_int (c_div (src_y w) (scale w))) 0
                (wl_fixed_from_int (c_div (src_height w) (scale w)))]"
proof -
  have "\<bar>- 1 :: int\<bar> div \<bar>scale w\<bar> = 0" using assms(2) by (simp add: div_pos_pos_trivial)
  then have "c_div (- 1) (scale w) = 0" by (simp add: c_div_def)
  with assms show ?thesis
    by (auto simp: gst_wl_window_resize_video_surface_def Let_def wl_fixed_from_int_def
          scale_div_def to_gint_def gst_wl_window_is_toplevel_def split: if_splits)
qed

text \<open>
  The unsigned division turns the -1 into the quotient of \<open>2 ^ 32 - 1\<close>.  With a scale of
  2 the fixed-point product of that quotient wraps to \<^verbatim>\<open>wl_fixed_from_int (-1)\<close> and no
  source viewport is set; with a scale of 3 it does not, and a source viewport of width
  1431655680 is set.
\<close>

lemma resize_unset_crop_unsigned_two:
  assumes "scale_division_unsigned plat"
      and "scale w = 2" and "src_width w = - 1"
      and "gst_wl_window_resize_video_surface plat w commit = Some w'"
  shows "filter is_viewport_source (requests w') = filter is_viewport_source (requests w)"
  using assms
  by (auto simp: gst_wl_window_resize_video_surface_def Let_def scale_div_def
        to_gint_def to_guint_def wl_fixed_from_int_def
        gst_wl_window_is_toplevel_def split: if_splits)

text \<open>
  With a scale of 3 a source viewport is set under either division: its width is 0 when
  the division is signed and 1431655680 when it is unsigned.
\<close>

lemma resize_unset_crop_scale_three:
  assumes "scale w = 3" and "src_width w = - 1" and "video_viewport w"
      and "gst_wl_window_resize_video_surface plat w commit = Some w'"
  shows "filter is_viewport_source (requests w') =
           filter is_viewport_source (requests w) @
             [ViewportSetSource VIDEO_VIEWPORT
                (wl_fixed_from_int (scale_div plat (src_x w) 3))
                (wl_fixed_from_int (scale_div plat (src_y w) 3))
                (if scale_division_unsigned plat then 1431655680 else 0)
                (wl_fixed_from_int (scale_div plat (src_height w) 3))]"
proof -
  have "wl_fixed_from_int (scale_div plat (- 1) 3) =
          (if scale_division_unsigned plat then 1431655680 else 0)"
    by (simp add: wl_fixed_from_int_def scale_div_def to_gint_def to_guint_def c_div_def)
  moreover have "wl_fixed_from_int (- 1) = - 256"
    by (simp add: wl_fixed_from_int_def to_gint_def)
  ultimately show ?thesis
    using assms
    by (auto simp: gst_wl_window_resize_video_surface_def Let_def
          gst_wl_window_is_toplevel_def split: if_splits)
qed

text \<open>
  Claim C8, on the code.  \<^verbatim>\<open>gst_wl_window_set_source_crop\<close> for a buffer without crop
  metadata leaves the width -1 in the window and changes nothing else.  But
  \<^verbatim>\<open>gst_wl_window_resize_video_surface\<close> divides that width by \<open>scale\<close> before it compares
  it with \<^verbatim>\<open>wl_fixed_from_int (-1)\<close>.  A window is created on a display with a viewporter
  whose surface state reports a scale of 3, the crop is reset, and the next frame with
  video information recomputes the geometry.  That computation does set a source
  viewport, although the claim says that none is applied: of width 0 when the division is
  signed, of width 1431655680 when it is unsigned.
\<close>

theorem C8_sentinel_lost_under_scale:
  "map_option src_width
     (window_life reference_platform
        (scaled_display\<lparr>surface_state := Some (3, 1920, 1080)\<rparr>) None
        [SetSourceCrop None]) = Some (- 1) \<and>
   map_option (filter is_viewport_source \<circ> requests)
     (window_life reference_platform
        (scaled_display\<lparr>surface_state := Some (3, 1920, 1080)\<rparr>) None
        [SetSourceCrop None, Render (Some 0) (Some hd_info)]) =
     Some [ViewportSetSource VIDEO_VIEWPORT 0 0 0 0] \<and>
   map_option src_width
     (window_life unsigned_platform
        (scaled_display\<lparr>surface_state := Some (3, 1920, 1080)\<rparr>) None
        [SetSourceCrop None]) = Some (- 1) \<and>
   map_option (filter is_viewport_source \<circ> requests)
     (window_life unsigned_platform
        (scaled_display\<lparr>surface_state := Some (3, 1920, 1080)\<rparr>) None
        [SetSourceCrop None, Render (Some 0) (Some hd_info)]) =
     Some [ViewportSetSource VIDEO_VIEWPORT 0 0 1431655680 0]"
  by (simp add: window_eval)

subsection \<open>The border buffer\<close>

text \<open>
  Claim C9.  At any moment of the life of a window (with a scale that is not zero, so that
  the call returns), after \<^verbatim>\<open>gst_wl_window_set_render_rectangle\<close> the buffer attached to
  the border surface is a 1x1 buffer when the display has a viewporter, and otherwise a
  buffer of the width and height of the render rectangle; in both cases its format is
  the one the file selects for XRGB8888 on the platform (xRGB on a big-endian one, BGRx
  otherwise) and every one of its four bytes per pixel is zero.
\<close>

theorem C9_border_filler_buffer:
  assumes "window_life plat d info cs = Some w" and "scale w \<noteq> 0"
  shows "\<exists>w'. gst_wl_window_set_render_rectangle plat w x y rw rh = Some w' \<and>
              attached AREA_SURFACE (requests w') =
                Some (if viewporter d
                      then ShmBuffer (if big_endian plat then GST_VIDEO_FORMAT_xRGB
                                      else GST_VIDEO_FORMAT_BGRx) 1 1 (replicate 4 0)
                      else ShmBuffer (if big_endian plat then GST_VIDEO_FORMAT_xRGB
                                      else GST_VIDEO_FORMAT_BGRx) rw rh
                             (replicate (nat (4 * rw * rh)) 0))"
proof -
  from set_render_rectangle_total[of w plat x y rw rh] assms(2)
  obtain w' where r: "gst_wl_window_set_render_rectangle plat w x y rw rh = Some w'" by auto
  note f = window_life_facts[OF assms(1)]
  have "attached AREA_SURFACE (requests w') =
          Some (if viewporter d then border_filler plat 1 1 else border_filler plat rw rh)"
  proof (cases "no_border_update w")
    case True
    with set_render_rectangle_border(1)[OF r] f(1,5) show ?thesis
      by (simp add: border_inv_def)
  next
    case False
    with set_render_rectangle_border(2)[OF r] f(1) show ?thesis by simp
  qed
  with r show ?thesis by (auto simp: border_filler_def border_format_def)
qed

theorem C9_border_filler_buffer_witness:
  "(\<exists>w'. gst_wl_window_set_render_rectangle reference_platform
            (gst_wl_window_new_in_surface reference_platform plain_display) 0 0 2 1 = Some w' \<and>
          attached AREA_SURFACE (requests w') =
            Some (ShmBuffer GST_VIDEO_FORMAT_BGRx 2 1 [0, 0, 0, 0, 0, 0, 0, 0])) \<and>
   (\<exists>w'. gst_wl_window_set_render_rectangle reference_platform
            (gst_wl_window_new_in_surface reference_platform scaled_display) 0 0 2 1 = Some w' \<and>
          attached AREA_SURFACE (requests w') =
            Some (ShmBuffer GST_VIDEO_FORMAT_BGRx 1 1 [0, 0, 0, 0]))"
proof -
  have l1: "window_life reference_platform plain_display None [] =
              Some (gst_wl_window_new_in_surface reference_platform plain_display)"
    and l2: "window_life reference_platform scaled_display None [] =
              Some (gst_wl_window_new_in_surface reference_platform scaled_display)"
    by (simp_all add: window_life_def window_born_def)
  have s1: "scale (gst_wl_window_new_in_surface reference_platform plain_display) \<noteq> 0"
    and s2: "scale (gst_wl_window_new_in_surface reference_platform scaled_display) \<noteq> 0"
    by (simp_all add: window_eval)
  have r: "replicate 8 (0::nat) = [0, 0, 0, 0, 0, 0, 0, 0]" "replicate 4 (0::nat) = [0, 0, 0, 0]"
    by (simp_all add: numeral_eq_Suc)
  from C9_border_filler_buffer[OF l1 s1, of 0 0 2 1] C9_border_filler_buffer[OF l2 s2, of 0 0 2 1]
  show ?thesis
    by (simp add: r reference_platform_def plain_display_def scaled_display_def)
qed

text \<open>
  Claim C10.  On a display with a viewporter, whatever calls a window has seen and will
  see: the border surface is given a buffer at most once; an update of the borders
  always leaves the flag \<open>no_border_update\<close> set; and once the flag is set, an update of
  the borders changes nothing, the flag stays set through all later calls, no later call
  attaches a buffer to the border surface, which keeps the 1x1 filler, and the window has
  the viewport of the border surface through which the filler is scaled.
\<close>

theorem C10_border_update_runs_once:
  assumes "viewporter d" and "window_life plat d info cs = Some w"
      and "window_calls plat w cs' = Some w'"
  shows "length (filter is_area_attach (requests w')) \<le> 1 \<and>
         no_border_update (gst_wl_window_update_borders plat w) \<and>
         (no_border_update w \<longrightarrow>
            gst_wl_window_update_borders plat w = w \<and>
            no_border_update w' \<and>
            filter is_area_attach (requests w') = filter is_area_attach (requests w) \<and>
            attached AREA_SURFACE (requests w') =
              Some (ShmBuffer (if big_endian plat then GST_VIDEO_FORMAT_xRGB
                               else GST_VIDEO_FORMAT_BGRx) 1 1 (replicate 4 0)) \<and>
            area_viewport w')"
proof -
  note f = window_life_facts[OF assms(2)]
  note f' = window_life_facts[OF window_life_append[OF assms(2,3)]]
  have 1: "length (filter is_area_attach (requests w')) \<le> 1"
    using f'(1,5) assms(1) by (simp add: border_inv_def)
  have 2: "no_border_update (gst_wl_window_update_borders plat w)"
    using update_borders_fresh[of w plat] update_borders_skip[of w plat] f(1) assms(1)
    by (cases "no_border_update w") simp_all
  have 3: "no_border_update w' \<and>
            filter is_area_attach (requests w') = filter is_area_attach (requests w) \<and>
            attached AREA_SURFACE (requests w') =
              Some (ShmBuffer (if big_endian plat then GST_VIDEO_FORMAT_xRGB
                               else GST_VIDEO_FORMAT_BGRx) 1 1 (replicate 4 0)) \<and>
            area_viewport w'" if n: "no_border_update w"
  proof -
    from window_calls_flag[OF assms(3) n] have k: "border_kept w w'" .
    with n f(5) f'(4) assms(1) show ?thesis
      by (simp add: border_kept_def border_inv_def border_filler_def border_format_def)
  qed
  from 1 2 3 update_borders_skip[of w plat] show ?thesis by blast
qed

theorem C10_border_update_runs_once_witness:
  "viewporter scaled_display \<and>
   (\<exists>w w'. window_life reference_platform scaled_display None
              [SetRenderRectangle 0 0 640 480] = Some w \<and>
            window_calls reference_platform w [SetRenderRectangle 0 0 1280 720] = Some w' \<and>
            no_border_update w \<and>
            length (filter is_area_attach (requests w')) \<le> 1 \<and>
            gst_wl_window_update_borders reference_platform w = w \<and>
            no_border_update w' \<and>
            filter is_area_attach (requests w') = filter is_area_attach (requests w) \<and>
            attached AREA_SURFACE (requests w') =
              Some (ShmBuffer GST_VIDEO_FORMAT_BGRx 1 1 [0, 0, 0, 0]) \<and>
            area_viewport w')"
proof -
  define w where "w = the (window_life reference_platform scaled_display None
              [SetRenderRectangle 0 0 640 480])"
  define w' where "w' = the (window_calls reference_platform w [SetRenderRectangle 0 0 1280 720])"
  have v: "viewporter scaled_display" by (simp add: scaled_display_def)
  have "window_life reference_platform scaled_display None
              [SetRenderRectangle 0 0 640 480] \<noteq> None"
    by (simp add: window_eval)
  then have l: "window_life reference_platform scaled_display None
              [SetRenderRectangle 0 0 640 480] = Some w" by (simp add: w_def)
  have n: "no_border_update w" by (simp add: w_def window_eval)
  have "window_calls reference_platform w [SetRenderRectangle 0 0 1280 720] \<noteq> None"
    by (simp add: w_def window_eval)
  then have c: "window_calls reference_platform w [SetRenderRectangle 0 0 1280 720] = Some w'"
    by (simp add: w'_def)
  have r: "replicate 4 (0::nat) = [0, 0, 0, 0]" by (simp add: numeral_eq_Suc)
  have b: "big_endian reference_platform = False" by (simp add: reference_platform_def)
  from C10_border_update_runs_once[OF v l c] n
  have "length (filter is_area_attach (requests w')) \<le> 1 \<and>
            gst_wl_window_update_borders reference_platform w = w \<and>
            no_border_update w' \<and>
            filter is_area_attach (requests w') = filter is_area_attach (requests w) \<and>
            attached AREA_SURFACE (requests w') =
              Some (ShmBuffer GST_VIDEO_FORMAT_BGRx 1 1 [0, 0, 0, 0]) \<and>
            area_viewport w'"
    unfolding r b if_False by blast
  with v l c n show ?thesis by blast
qed

section \<open>Verification of the CUDA memory copy\<close>

subsection \<open>Events\<close>

lemma emitted_append [simp]: "emitted t (t @ es) = es"
  by (simp add: emitted_def)

lemma emitted_Nil [simp]: "emitted [] es = es"
  by (simp add: emitted_def)

lemma emitted_self [simp]: "emitted t t = []"
  by (simp add: emitted_def)

lemma emitted_app2 [simp]: "emitted t ((t @ es) @ es') = es @ es'"
  by (simp add: emitted_def)

lemma event_kinds [simp]:
  "\<not> is_failed_copy (map_event mt role src)" "\<not> is_failed_copy (unmap_event mt role)"
  "\<not> is_copy (map_event mt role src)" "\<not> is_copy (unmap_event mt role)"
  "is_map r (map_event mt role src) = (r = role)" "\<not> is_unmap r (map_event mt role src)"
  "is_unmap r (unmap_event mt role) = (r = role)" "\<not> is_map r (unmap_event mt role)"
  "map_event mt role src \<noteq> ContextPush b" "map_event mt role src \<noteq> ContextPop"
  "unmap_event mt role \<noteq> ContextPush b" "unmap_event mt role \<noteq> ContextPop"
  "\<not> is_sysmem_entry (map_event mt role src)" "\<not> is_sysmem_entry (unmap_event mt role)"
  by (auto simp: map_event_def unmap_event_def)

lemma failed_map_events_kinds:
  assumes "es \<in> failed_map_events mt role src"
  shows "\<forall>e\<in>set es. \<not> is_failed_copy e \<and> \<not> is_copy e \<and> \<not> is_sysmem_entry e \<and>
            e \<noteq> ContextPush True \<and> e \<noteq> ContextPop"
    and "length (filter (is_map r) es) = length (filter (is_unmap r) es)"
  using assms by (auto simp: failed_map_events_def)

lemma copies_kinds:
  assumes "\<forall>e\<in>set cs. is_copy e"
  shows "filter (is_map r) cs = []" "filter (is_unmap r) cs = []"
        "filter (\<lambda>e. e = ContextPush True) cs = []" "filter (\<lambda>e. e = ContextPop) cs = []"
        "filter is_sysmem_entry cs = []"
proof -
  have "\<And>e. is_copy e \<Longrightarrow> \<not> is_map r e \<and> \<not> is_unmap r e \<and> e \<noteq> ContextPush True \<and>
           e \<noteq> ContextPop \<and> \<not> is_sysmem_entry e"
    by (case_tac e) auto
  with assms show "filter (is_map r) cs = []" "filter (is_unmap r) cs = []"
        "filter (\<lambda>e. e = ContextPush True) cs = []" "filter (\<lambda>e. e = ContextPop) cs = []"
        "filter is_sysmem_entry cs = []"
    by (auto simp: filter_empty_conv)
qed

lemma dropWhile_first:
  "\<forall>e\<in>set xs. P e \<Longrightarrow> \<not> P f \<Longrightarrow> dropWhile P (xs @ f # ys) = f # ys"
  by (induction xs) auto

text \<open>The equations that evaluate a transform on concrete buffers and drivers.\<close>

lemmas cuda_eval =
  gst_cuda_memory_copy_transform_def transform_copy_def mem_type_of_def
  gst_is_cuda_memory_def gst_is_gl_memory_pbo_def gst_cuda_memory_copy_gl_interop_def
  gl_copy_thread_func_def gst_cuda_memory_copy_transform_sysmem_def
  gst_cuda_memory_copy_transform_cuda_def gst_cuda_memory_copy_map_and_fill_copy2d_def
  gst_cuda_memory_copy_unmap_def flow_return_def driver_failing_def Let_def
  gl_element_def gl_buffer_def cuda_buffer_def hd_info_def plain_surface_def

subsection \<open>The staged copy\<close>

text \<open>
  Claim C4.  The events of a staged copy are one of three sequences.  The input is mapped
  for reading; if that fails the copy fails and nothing is mapped.  Otherwise the output
  is mapped for writing; if that fails the copy fails and the input, which was mapped, is
  unmapped before the return.  Otherwise the frame is copied, the output and the input
  are unmapped, and the result is the result of the frame copy.  In every case each
  buffer has as many unmappings as successful mappings.
\<close>

theorem C4_sysmem_maps_and_unmaps:
  "(emitted t (snd (gst_cuda_memory_copy_transform_sysmem drv t)) =
      [Enter TRANSFORM_SYSMEM, VideoFrameMap INBUF GST_MAP_READ False False] \<and>
    \<not> fst (gst_cuda_memory_copy_transform_sysmem drv t) \<or>
    emitted t (snd (gst_cuda_memory_copy_transform_sysmem drv t)) =
      [Enter TRANSFORM_SYSMEM, VideoFrameMap INBUF GST_MAP_READ False True,
       VideoFrameMap OUTBUF GST_MAP_WRITE False False, VideoFrameUnmap INBUF] \<and>
    \<not> fst (gst_cuda_memory_copy_transform_sysmem drv t) \<or>
    emitted t (snd (gst_cuda_memory_copy_transform_sysmem drv t)) =
      [Enter TRANSFORM_SYSMEM, VideoFrameMap INBUF GST_MAP_READ False True,
       VideoFrameMap OUTBUF GST_MAP_WRITE False True,
       VideoFrameCopy (fst (gst_cuda_memory_copy_transform_sysmem drv t)),
       VideoFrameUnmap OUTBUF, VideoFrameUnmap INBUF]) \<and>
   balanced INBUF (emitted t (snd (gst_cuda_memory_copy_transform_sysmem drv t))) \<and>
   balanced OUTBUF (emitted t (snd (gst_cuda_memory_copy_transform_sysmem drv t)))"
  by (simp add: gst_cuda_memory_copy_transform_sysmem_def Let_def balanced_def)

theorem C4_sysmem_maps_and_unmaps_witness:
  "emitted [] (snd (gst_cuda_memory_copy_transform_sysmem
                      (driver_failing [CallVideoFrameMap OUTBUF GST_MAP_WRITE False]) [])) =
     [Enter TRANSFORM_SYSMEM, VideoFrameMap INBUF GST_MAP_READ False True,
      VideoFrameMap OUTBUF GST_MAP_WRITE False False, VideoFrameUnmap INBUF] \<and>
   \<not> fst (gst_cuda_memory_copy_transform_sysmem
            (driver_failing [CallVideoFrameMap OUTBUF GST_MAP_WRITE False]) []) \<and>
   balanced INBUF
     (emitted [] (snd (gst_cuda_memory_copy_transform_sysmem
                         (driver_failing [CallVideoFrameMap OUTBUF GST_MAP_WRITE False]) []))) \<and>
   balanced OUTBUF
     (emitted [] (snd (gst_cuda_memory_copy_transform_sysmem
                         (driver_failing [CallVideoFrameMap OUTBUF GST_MAP_WRITE False]) [])))"
  using C4_sysmem_maps_and_unmaps[of "[]"
          "driver_failing [CallVideoFrameMap OUTBUF GST_MAP_WRITE False]"]
  by (simp add: gst_cuda_memory_copy_transform_sysmem_def driver_failing_def Let_def)

subsection \<open>Mapping and descriptors\<close>

text \<open>A mapping that succeeds leaves one event, and is undone by one event.\<close>

lemma map_and_fill_ok:
  assumes "gst_cuda_memory_copy_map_and_fill_copy2d drv t role buf info mt is_src cp = (True, m, cp', t')"
  shows "t' = t @ [if mt = GST_CUDA_MEMORY_COPY_MEM_NVMM then BufferMap role True
                   else VideoFrameMap role (if is_src then GST_MAP_READ else GST_MAP_WRITE)
                          (mt = GST_CUDA_MEMORY_COPY_MEM_CUDA) True]"
    and "gst_cuda_memory_copy_unmap role m u = u @ [unmap_event mt role]"
  using assms
  by (auto simp: gst_cuda_memory_copy_map_and_fill_copy2d_def Let_def unmapped_def
        gst_cuda_memory_copy_unmap_def unmap_event_def
        split: if_splits option.splits)

lemma map_and_fill_failed:
  assumes "gst_cuda_memory_copy_map_and_fill_copy2d drv t role buf info mt is_src cp = (False, m, cp', t')"
  shows "\<exists>es. t' = t @ es \<and>
           es \<in> {[BufferMap role False], [BufferMap role True, BufferUnmap role],
                  [VideoFrameMap role (if is_src then GST_MAP_READ else GST_MAP_WRITE)
                          (mt = GST_CUDA_MEMORY_COPY_MEM_CUDA) False]}"
  using assms
  by (auto simp: gst_cuda_memory_copy_map_and_fill_copy2d_def Let_def
        split: if_splits option.splits)

lemma map_and_fill_ok':
  assumes "gst_cuda_memory_copy_map_and_fill_copy2d drv t role buf info mt is_src cp = (True, m, cp', t')"
  shows "t' = t @ [map_event mt role is_src]"
  using map_and_fill_ok(1)[OF assms] by (simp add: map_event_def)

lemma map_and_fill_failed':
  assumes "gst_cuda_memory_copy_map_and_fill_copy2d drv t role buf info mt is_src cp = (False, m, cp', t')"
  shows "\<exists>es\<in>failed_map_events mt role is_src. t' = t @ es"
  using map_and_fill_failed[OF assms] unfolding failed_map_events_def by blast

text \<open>The loop over the planes rewrites the descriptors below its bound.\<close>

lemma for_planes_apply:
  "for_planes n f cp j = (if j < n then f j (cp j) else cp j)"
proof (induction n)
  case 0
  then show ?case by (simp add: for_planes_def)
next
  case (Suc n)
  have "for_planes (Suc n) f cp = (for_planes n f cp)(n := f n (for_planes n f cp n))"
    by (simp add: for_planes_def)
  with Suc show ?case by (auto simp: less_Suc_eq)
qed

lemma side_cong:
  "src_side c = src_side c' \<Longrightarrow> from_surface_src b i c = from_surface_src b i c'"
  "dst_side c = dst_side c' \<Longrightarrow> from_surface_dst b i c = from_surface_dst b i c'"
  "dims c = dims c' \<Longrightarrow> from_surface_dims b i c = from_surface_dims b i c'"
  by (auto simp: src_side_def dst_side_def dims_def from_surface_src_def from_surface_dst_def
        from_surface_dims_def src_address_def dst_address_def split: option.splits)

text \<open>
  For an NVMM buffer the side that is filled and the dimensions come from the surface;
  for any buffer the other side of every descriptor is left as it was; a surface with
  another number of planes than the format is rejected.
\<close>

lemma map_and_fill_nvmm:
  assumes "gst_cuda_memory_copy_map_and_fill_copy2d drv t role buf info
             GST_CUDA_MEMORY_COPY_MEM_NVMM is_src cp = (True, m, cp', t')"
      and "i < n_planes info"
  shows "from_surface_dims buf i (cp' i)"
    and "is_src \<Longrightarrow> from_surface_src buf i (cp' i)"
    and "\<not> is_src \<Longrightarrow> from_surface_dst buf i (cp' i)"
  using assms
  by (auto simp: gst_cuda_memory_copy_map_and_fill_copy2d_def Let_def for_planes_apply
        from_surface_dims_def from_surface_src_def from_surface_dst_def nvmm_side_def
        src_address_def dst_address_def
        split: if_splits option.splits)

lemma map_and_fill_other_side:
  assumes "gst_cuda_memory_copy_map_and_fill_copy2d drv t role buf info mt is_src cp
             = (ok, m, cp', t')"
  shows "is_src \<Longrightarrow> dst_side (cp' i) = dst_side (cp i)"
    and "\<not> is_src \<Longrightarrow> src_side (cp' i) = src_side (cp i)"
  using assms
  by (auto simp: gst_cuda_memory_copy_map_and_fill_copy2d_def Let_def for_planes_apply
        nvmm_side_def frame_side_def src_side_def dst_side_def
        split: if_splits option.splits)


subsection \<open>The direct device copy\<close>

lemma copy_planes_events:
  "copy_planes drv cp ps r t = (ret, t') \<Longrightarrow>
     \<exists>es. t' = t @ es \<and> (\<forall>e\<in>set es. is_copy e) \<and>
          (\<forall>i d ok. Memcpy2DAsync i d ok \<in> set es \<longrightarrow> d = cp i \<and> i \<in> set ps) \<and>
          ((\<forall>e\<in>set es. \<not> is_failed_copy e) \<or>
           (\<not> ret \<and> (\<exists>es0 k. es = es0 @ [Memcpy2DAsync k (cp k) False] \<and>
                                (\<forall>e\<in>set es0. \<not> is_failed_copy e))))"
proof (induction ps arbitrary: r t)
  case Nil
  then show ?case by simp
next
  case (Cons i ps)
  show ?case
  proof (cases "drv t (CallMemcpy2DAsync i)")
    case False
    with Cons.prems have "ret = False" "t' = t @ [Memcpy2DAsync i (cp i) False]"
      by (simp_all add: Let_def)
    then show ?thesis
      by (intro exI[of _ "[Memcpy2DAsync i (cp i) False]"]) auto
  next
    case True
    with Cons.prems have "copy_planes drv cp ps True (t @ [Memcpy2DAsync i (cp i) True]) = (ret, t')"
      by (simp add: Let_def)
    from Cons.IH[OF this] obtain es where es: "t' = (t @ [Memcpy2DAsync i (cp i) True]) @ es"
      "\<forall>e\<in>set es. is_copy e"
      "\<forall>i d ok. Memcpy2DAsync i d ok \<in> set es \<longrightarrow> d = cp i \<and> i \<in> set ps"
      "(\<forall>e\<in>set es. \<not> is_failed_copy e) \<or>
           (\<not> ret \<and> (\<exists>es0 k. es = es0 @ [Memcpy2DAsync k (cp k) False] \<and>
                                (\<forall>e\<in>set es0. \<not> is_failed_copy e)))"
      by blast
    show ?thesis
    proof (intro exI[of _ "Memcpy2DAsync i (cp i) True # es"] conjI)
      show "t' = t @ Memcpy2DAsync i (cp i) True # es" using es(1) by simp
      show "\<forall>e\<in>set (Memcpy2DAsync i (cp i) True # es). is_copy e" using es(2) by simp
      show "\<forall>ia d ok. Memcpy2DAsync ia d ok \<in> set (Memcpy2DAsync i (cp i) True # es) \<longrightarrow>
              d = cp ia \<and> ia \<in> set (i # ps)" using es(3) by auto
      from es(4) show "(\<forall>e\<in>set (Memcpy2DAsync i (cp i) True # es). \<not> is_failed_copy e) \<or>
           (\<not> ret \<and> (\<exists>es0 k. Memcpy2DAsync i (cp i) True # es = es0 @ [Memcpy2DAsync k (cp k) False] \<and>
                                (\<forall>e\<in>set es0. \<not> is_failed_copy e)))"
      proof
        assume "\<forall>e\<in>set es. \<not> is_failed_copy e"
        then show ?thesis by simp
      next
        assume "\<not> ret \<and> (\<exists>es0 k. es = es0 @ [Memcpy2DAsync k (cp k) False] \<and>
                                (\<forall>e\<in>set es0. \<not> is_failed_copy e))"
        then obtain es0 k where "\<not> ret" "es = es0 @ [Memcpy2DAsync k (cp k) False]"
            "\<forall>e\<in>set es0. \<not> is_failed_copy e" by blast
        then have "\<not> ret \<and> Memcpy2DAsync i (cp i) True # es =
             (Memcpy2DAsync i (cp i) True # es0) @ [Memcpy2DAsync k (cp k) False] \<and>
             (\<forall>e\<in>set (Memcpy2DAsync i (cp i) True # es0). \<not> is_failed_copy e)" by simp
        then show ?thesis by blast
      qed
    qed
  qed
qed

lemma transform_cuda_events:
  assumes "gst_cuda_memory_copy_transform_cuda drv t inbuf ii it outbuf oi ot = (ret, t')"
  shows "\<exists>es. t' = t @ Enter (TRANSFORM_CUDA it ot) # es \<and>
           ((\<not> ret \<and> es \<in> failed_map_events it INBUF True) \<or>
            (\<not> ret \<and> (\<exists>eo\<in>failed_map_events ot OUTBUF False.
                          es = map_event it INBUF True # eo @ [unmap_event it INBUF])) \<or>
            (\<not> ret \<and> es = [map_event it INBUF True, map_event ot OUTBUF False,
                             ContextPush False, ContextPop,
                             unmap_event it INBUF, unmap_event ot OUTBUF]) \<or>
            (\<exists>cs. loop_events ret cs \<and> nvmm_descriptors it inbuf ii ot outbuf oi cs \<and>
                  es = [map_event it INBUF True, map_event ot OUTBUF False, ContextPush True] @
                       cs @ [StreamSynchronize, ContextPop,
                             unmap_event it INBUF, unmap_event ot OUTBUF]))"
proof -
  let ?t0 = "t @ [Enter (TRANSFORM_CUDA it ot)]"
  obtain ok1 m1 cp1 t1 where f1:
    "gst_cuda_memory_copy_map_and_fill_copy2d drv ?t0 INBUF inbuf ii it True
       (\<lambda>i. zero_copy_params) = (ok1, m1, cp1, t1)"
    by (metis prod_cases4)
  show ?thesis
  proof (cases ok1)
    case False
    with f1 assms have r: "ret = False" "t' = t1"
      by (simp_all add: gst_cuda_memory_copy_transform_cuda_def Let_def)
    from f1 False have "gst_cuda_memory_copy_map_and_fill_copy2d drv ?t0 INBUF inbuf ii it True
       (\<lambda>i. zero_copy_params) = (False, m1, cp1, t1)" by simp
    from map_and_fill_failed'[OF this] obtain es where
      "es \<in> failed_map_events it INBUF True" "t1 = ?t0 @ es" by blast
    with r show ?thesis by auto
  next
    case True
    with f1 have f1': "gst_cuda_memory_copy_map_and_fill_copy2d drv ?t0 INBUF inbuf ii it True
       (\<lambda>i. zero_copy_params) = (True, m1, cp1, t1)" by simp
    note u1 = map_and_fill_ok(2)[OF f1']
    have t1: "t1 = ?t0 @ [map_event it INBUF True]"
      using map_and_fill_ok'[OF f1'] .
    obtain ok2 m2 cp2 t2 where f2:
      "gst_cuda_memory_copy_map_and_fill_copy2d drv t1 OUTBUF outbuf oi ot False cp1
         = (ok2, m2, cp2, t2)"
      by (metis prod_cases4)
    show ?thesis
    proof (cases ok2)
      case False
      with f1 f2 True assms have r: "ret = False" "t' = gst_cuda_memory_copy_unmap INBUF m1 t2"
        by (simp_all add: gst_cuda_memory_copy_transform_cuda_def Let_def)
      from f2 False have "gst_cuda_memory_copy_map_and_fill_copy2d drv t1 OUTBUF outbuf oi ot
         False cp1 = (False, m2, cp2, t2)" by simp
      from map_and_fill_failed'[OF this] obtain eo where
        eo: "eo \<in> failed_map_events ot OUTBUF False" "t2 = t1 @ eo" by blast
      have "t' = t @ Enter (TRANSFORM_CUDA it ot) #
                  (map_event it INBUF True # eo @ [unmap_event it INBUF])"
        using r(2) eo(2) t1 u1 by simp
      with r(1) eo(1) show ?thesis by blast
    next
      case ok2: True
      with f2 have f2': "gst_cuda_memory_copy_map_and_fill_copy2d drv t1 OUTBUF outbuf oi ot
         False cp1 = (True, m2, cp2, t2)" by simp
      note u2 = map_and_fill_ok(2)[OF f2']
      have t2: "t2 = t1 @ [map_event ot OUTBUF False]"
        using map_and_fill_ok'[OF f2'] .
      show ?thesis
      proof (cases "drv t2 CallContextPush")
        case False
        with f1 f2 True ok2 assms have r: "ret = False"
          "t' = gst_cuda_memory_copy_unmap OUTBUF m2
                  (gst_cuda_memory_copy_unmap INBUF m1 (t2 @ [ContextPush False, ContextPop]))"
          by (simp_all add: gst_cuda_memory_copy_transform_cuda_def Let_def)
        have "t' = t @ Enter (TRANSFORM_CUDA it ot) #
                 [map_event it INBUF True, map_event ot OUTBUF False,
                             ContextPush False, ContextPop,
                             unmap_event it INBUF, unmap_event ot OUTBUF]"
          using r(2) t1 t2 u1 u2 by simp
        with r(1) show ?thesis by blast
      next
        case push: True
        obtain r3 t3 where f3: "copy_planes drv cp2 [0..<n_planes ii] False
                                 (t2 @ [ContextPush True]) = (r3, t3)"
          by (metis surj_pair)
        with f1 f2 True ok2 push assms have r: "ret = r3"
          "t' = gst_cuda_memory_copy_unmap OUTBUF m2
                  (gst_cuda_memory_copy_unmap INBUF m1 (t3 @ [StreamSynchronize, ContextPop]))"
          by (simp_all add: gst_cuda_memory_copy_transform_cuda_def Let_def)
        from copy_planes_events[OF f3] obtain cs where cs: "t3 = (t2 @ [ContextPush True]) @ cs"
          "\<forall>e\<in>set cs. is_copy e"
          "(\<forall>e\<in>set cs. \<not> is_failed_copy e) \<or>
           (\<not> r3 \<and> (\<exists>es0 k. cs = es0 @ [Memcpy2DAsync k (cp2 k) False] \<and>
                                (\<forall>e\<in>set es0. \<not> is_failed_copy e)))"
          "\<forall>i d ok. Memcpy2DAsync i d ok \<in> set cs \<longrightarrow> d = cp2 i \<and> i \<in> set [0..<n_planes ii]"
          by blast
        have le: "loop_events ret cs"
          unfolding loop_events_def using cs(2,3) r(1) by fastforce
        have de: "nvmm_descriptors it inbuf ii ot outbuf oi cs"
          unfolding nvmm_descriptors_def
        proof (intro allI impI)
          fix i c ok assume "Memcpy2DAsync i c ok \<in> set cs"
          with cs(4) have c: "c = cp2 i" and i: "i < n_planes ii" by auto
          have s: "src_side (cp2 i) = src_side (cp1 i)"
            using map_and_fill_other_side(2)[OF f2'] by simp
          have 1: "from_surface_src inbuf i c" if "it = GST_CUDA_MEMORY_COPY_MEM_NVMM"
            using map_and_fill_nvmm(2)[OF f1'[unfolded that] i] side_cong(1)[OF s] c by simp
          have 2: "from_surface_dst outbuf i c \<and> from_surface_dims outbuf i c"
            if "ot = GST_CUDA_MEMORY_COPY_MEM_NVMM" "i < n_planes oi"
            using map_and_fill_nvmm(1,3)[OF f2'[unfolded that(1)] that(2)] c by simp
          from i 1 2 show "i < n_planes ii \<and>
            (it = GST_CUDA_MEMORY_COPY_MEM_NVMM \<longrightarrow> from_surface_src inbuf i c) \<and>
            (ot = GST_CUDA_MEMORY_COPY_MEM_NVMM \<and> i < n_planes oi \<longrightarrow>
               from_surface_dst outbuf i c \<and> from_surface_dims outbuf i c)" by blast
        qed
        have "t' = t @ Enter (TRANSFORM_CUDA it ot) #
                 ([map_event it INBUF True, map_event ot OUTBUF False, ContextPush True] @
                       cs @ [StreamSynchronize, ContextPop,
                             unmap_event it INBUF, unmap_event ot OUTBUF])"
          using r(2) t1 t2 u1 u2 cs(1) by simp
        with le de show ?thesis by blast
      qed
    qed
  qed
qed

text \<open>
  Claim C5.  In a direct device copy, when the copy of a plane fails the operation
  returns failure, and what follows the failed copy is exactly: the synchronisation of
  the stream, the pop of the context, the unmapping of the input and the unmapping of
  the output; no copy of a later plane is among them.  On every path each buffer has as
  many unmappings as successful mappings, and every context that was pushed is popped.
\<close>

theorem C5_device_copy_releases:
  "((\<exists>e\<in>set (emitted t (snd (gst_cuda_memory_copy_transform_cuda drv t inbuf ii it outbuf oi ot))).
       is_failed_copy e) \<longrightarrow>
      \<not> fst (gst_cuda_memory_copy_transform_cuda drv t inbuf ii it outbuf oi ot) \<and>
      after_failed_copy
        (emitted t (snd (gst_cuda_memory_copy_transform_cuda drv t inbuf ii it outbuf oi ot))) =
        [StreamSynchronize, ContextPop, unmap_event it INBUF, unmap_event ot OUTBUF]) \<and>
   balanced INBUF
     (emitted t (snd (gst_cuda_memory_copy_transform_cuda drv t inbuf ii it outbuf oi ot))) \<and>
   balanced OUTBUF
     (emitted t (snd (gst_cuda_memory_copy_transform_cuda drv t inbuf ii it outbuf oi ot))) \<and>
   popped
     (emitted t (snd (gst_cuda_memory_copy_transform_cuda drv t inbuf ii it outbuf oi ot)))"
proof -
  obtain ret t' where r: "gst_cuda_memory_copy_transform_cuda drv t inbuf ii it outbuf oi ot = (ret, t')"
    by (metis surj_pair)
  from transform_cuda_events[OF r] obtain es where
    t': "t' = t @ Enter (TRANSFORM_CUDA it ot) # es" and
    es: "(\<not> ret \<and> es \<in> failed_map_events it INBUF True) \<or>
            (\<not> ret \<and> (\<exists>eo\<in>failed_map_events ot OUTBUF False.
                          es = map_event it INBUF True # eo @ [unmap_event it INBUF])) \<or>
            (\<not> ret \<and> es = [map_event it INBUF True, map_event ot OUTBUF False,
                             ContextPush False, ContextPop,
                             unmap_event it INBUF, unmap_event ot OUTBUF]) \<or>
            (\<exists>cs. loop_events ret cs \<and>
                  es = [map_event it INBUF True, map_event ot OUTBUF False, ContextPush True] @
                       cs @ [StreamSynchronize, ContextPop,
                             unmap_event it INBUF, unmap_event ot OUTBUF])"
    by blast
  let ?ev = "Enter (TRANSFORM_CUDA it ot) # es"
  have ev: "emitted t (snd (gst_cuda_memory_copy_transform_cuda drv t inbuf ii it outbuf oi ot)) = ?ev"
    using r t' by simp
  have "((\<exists>e\<in>set ?ev. is_failed_copy e) \<longrightarrow>
           \<not> ret \<and> after_failed_copy ?ev =
             [StreamSynchronize, ContextPop, unmap_event it INBUF, unmap_event ot OUTBUF]) \<and>
        balanced INBUF ?ev \<and> balanced OUTBUF ?ev \<and> popped ?ev"
    using es
  proof (elim disjE conjE exE bexE)
    assume "\<not> ret" "es \<in> failed_map_events it INBUF True"
    from failed_map_events_kinds[OF this(2)] show ?thesis
      by (auto simp: balanced_def popped_def filter_empty_conv)
  next
    fix eo assume a: "\<not> ret" "eo \<in> failed_map_events ot OUTBUF False"
      "es = map_event it INBUF True # eo @ [unmap_event it INBUF]"
    from failed_map_events_kinds[OF a(2)] a(3) show ?thesis
      by (auto simp: balanced_def popped_def filter_empty_conv)
  next
    assume "\<not> ret" "es = [map_event it INBUF True, map_event ot OUTBUF False,
                             ContextPush False, ContextPop,
                             unmap_event it INBUF, unmap_event ot OUTBUF]"
    then show ?thesis by (simp add: balanced_def popped_def)
  next
    fix cs assume l: "loop_events ret cs"
      and e: "es = [map_event it INBUF True, map_event ot OUTBUF False, ContextPush True] @
                       cs @ [StreamSynchronize, ContextPop,
                             unmap_event it INBUF, unmap_event ot OUTBUF]"
    from l have c: "\<forall>e\<in>set cs. is_copy e" by (simp add: loop_events_def)
    have bal: "balanced INBUF ?ev \<and> balanced OUTBUF ?ev \<and> popped ?ev"
      using e by (simp add: balanced_def popped_def copies_kinds[OF c])
    have "\<not> ret \<and> after_failed_copy ?ev =
             [StreamSynchronize, ContextPop, unmap_event it INBUF, unmap_event ot OUTBUF]"
      if "\<exists>e\<in>set ?ev. is_failed_copy e"
    proof -
      from that e have "\<exists>e\<in>set cs. is_failed_copy e" by auto
      with l obtain cs0 f where f: "\<not> ret" "cs = cs0 @ [f]" "is_failed_copy f"
        "\<forall>e\<in>set cs0. \<not> is_failed_copy e"
        by (auto simp: loop_events_def)
      have "?ev = (Enter (TRANSFORM_CUDA it ot) # map_event it INBUF True #
                     map_event ot OUTBUF False # ContextPush True # cs0) @
                  f # [StreamSynchronize, ContextPop, unmap_event it INBUF, unmap_event ot OUTBUF]"
        using e f(2) by simp
      moreover have "\<forall>e\<in>set (Enter (TRANSFORM_CUDA it ot) # map_event it INBUF True #
                     map_event ot OUTBUF False # ContextPush True # cs0). \<not> is_failed_copy e"
        using f(4) by simp
      ultimately have "dropWhile (\<lambda>e. \<not> is_failed_copy e) ?ev =
          f # [StreamSynchronize, ContextPop, unmap_event it INBUF, unmap_event ot OUTBUF]"
        using f(3) dropWhile_first[of "Enter (TRANSFORM_CUDA it ot) # map_event it INBUF True #
                     map_event ot OUTBUF False # ContextPush True # cs0"
                     "\<lambda>e. \<not> is_failed_copy e" f] by simp
      with f(1) show ?thesis by (simp add: after_failed_copy_def)
    qed
    with bal show ?thesis by blast
  qed
  with ev r show ?thesis by simp
qed

theorem C5_device_copy_releases_witness:
  "emitted [] (snd (gst_cuda_memory_copy_transform_cuda (driver_failing [CallMemcpy2DAsync 0]) []
        cuda_buffer nv12_info GST_CUDA_MEMORY_COPY_MEM_CUDA
        cuda_buffer nv12_info GST_CUDA_MEMORY_COPY_MEM_CUDA)) =
     [Enter (TRANSFORM_CUDA GST_CUDA_MEMORY_COPY_MEM_CUDA GST_CUDA_MEMORY_COPY_MEM_CUDA),
      VideoFrameMap INBUF GST_MAP_READ True True, VideoFrameMap OUTBUF GST_MAP_WRITE True True,
      ContextPush True,
      Memcpy2DAsync 0
        \<lparr>srcMemoryType = CU_MEMORYTYPE_DEVICE, srcHost = 0, srcDevice = 65536, srcPitch = 8192,
         dstMemoryType = CU_MEMORYTYPE_DEVICE, dstHost = 0, dstDevice = 65536, dstPitch = 8192,
         WidthInBytes = 1920, Height = 1080\<rparr> False,
      StreamSynchronize, ContextPop, VideoFrameUnmap INBUF, VideoFrameUnmap OUTBUF] \<and>
   \<not> fst (gst_cuda_memory_copy_transform_cuda (driver_failing [CallMemcpy2DAsync 0]) []
        cuda_buffer nv12_info GST_CUDA_MEMORY_COPY_MEM_CUDA
        cuda_buffer nv12_info GST_CUDA_MEMORY_COPY_MEM_CUDA) \<and>
   after_failed_copy
     (emitted [] (snd (gst_cuda_memory_copy_transform_cuda (driver_failing [CallMemcpy2DAsync 0]) []
        cuda_buffer nv12_info GST_CUDA_MEMORY_COPY_MEM_CUDA
        cuda_buffer nv12_info GST_CUDA_MEMORY_COPY_MEM_CUDA))) =
     [StreamSynchronize, ContextPop, VideoFrameUnmap INBUF, VideoFrameUnmap OUTBUF]"
proof -
  have u: "[0..<2] = [0, Suc 0]" by (simp add: upt_rec)
  have e: "emitted [] (snd (gst_cuda_memory_copy_transform_cuda (driver_failing [CallMemcpy2DAsync 0]) []
        cuda_buffer nv12_info GST_CUDA_MEMORY_COPY_MEM_CUDA
        cuda_buffer nv12_info GST_CUDA_MEMORY_COPY_MEM_CUDA)) =
     [Enter (TRANSFORM_CUDA GST_CUDA_MEMORY_COPY_MEM_CUDA GST_CUDA_MEMORY_COPY_MEM_CUDA),
      VideoFrameMap INBUF GST_MAP_READ True True, VideoFrameMap OUTBUF GST_MAP_WRITE True True,
      ContextPush True,
      Memcpy2DAsync 0
        \<lparr>srcMemoryType = CU_MEMORYTYPE_DEVICE, srcHost = 0, srcDevice = 65536, srcPitch = 8192,
         dstMemoryType = CU_MEMORYTYPE_DEVICE, dstHost = 0, dstDevice = 65536, dstPitch = 8192,
         WidthInBytes = 1920, Height = 1080\<rparr> False,
      StreamSynchronize, ContextPop, VideoFrameUnmap INBUF, VideoFrameUnmap OUTBUF]"
    by (simp add: cuda_eval nv12_info_def u for_planes_def frame_side_def zero_copy_params_def
          emitted_def)
  from C5_device_copy_releases[of "[]" "driver_failing [CallMemcpy2DAsync 0]"
         cuda_buffer nv12_info GST_CUDA_MEMORY_COPY_MEM_CUDA
         cuda_buffer nv12_info GST_CUDA_MEMORY_COPY_MEM_CUDA]
  show ?thesis unfolding e by (simp add: unmap_event_def)
qed



subsection \<open>The GL interop copy\<close>






subsection \<open>The transform\<close>

text \<open>
  Claim C1, on the code.  The input is a GL buffer, the output a CUDA buffer, and the
  interop copy fails (the GL context offers no interop).  One staged copy is attempted,
  as the claim says.  When that staged copy succeeds the transform returns
  \<^verbatim>\<open>GST_FLOW_ERROR\<close>; when it fails the transform returns \<^verbatim>\<open>GST_FLOW_OK\<close>: the result
  of the fallback is negated where it is assigned.  The same with a CUDA input and a GL
  output.
\<close>

theorem C1_gl_fallback_result_inverted:
  "gst_cuda_memory_copy_transform (driver_failing [CallEnsureGLInterop]) []
       gl_element gl_buffer cuda_buffer =
     (Some GST_FLOW_ERROR,
      [Enter (GL_INTEROP True GST_CUDA_MEMORY_COPY_MEM_CUDA), EnsureGLInterop False,
       Enter TRANSFORM_SYSMEM,
       VideoFrameMap INBUF GST_MAP_READ False True,
       VideoFrameMap OUTBUF GST_MAP_WRITE False True,
       VideoFrameCopy True, VideoFrameUnmap OUTBUF, VideoFrameUnmap INBUF]) \<and>
   gst_cuda_memory_copy_transform (driver_failing [CallEnsureGLInterop, CallVideoFrameCopy]) []
       gl_element gl_buffer cuda_buffer =
     (Some GST_FLOW_OK,
      [Enter (GL_INTEROP True GST_CUDA_MEMORY_COPY_MEM_CUDA), EnsureGLInterop False,
       Enter TRANSFORM_SYSMEM,
       VideoFrameMap INBUF GST_MAP_READ False True,
       VideoFrameMap OUTBUF GST_MAP_WRITE False True,
       VideoFrameCopy False, VideoFrameUnmap OUTBUF, VideoFrameUnmap INBUF]) \<and>
   gst_cuda_memory_copy_transform (driver_failing [CallEnsureGLInterop]) []
       gl_element cuda_buffer gl_buffer =
     (Some GST_FLOW_ERROR,
      [Enter (GL_INTEROP False GST_CUDA_MEMORY_COPY_MEM_CUDA), EnsureGLInterop False,
       Enter TRANSFORM_SYSMEM,
       VideoFrameMap INBUF GST_MAP_READ False True,
       VideoFrameMap OUTBUF GST_MAP_WRITE False True,
       VideoFrameCopy True, VideoFrameUnmap OUTBUF, VideoFrameUnmap INBUF])"
  by (simp add: cuda_eval)

text \<open>
  In general: on the GL paths, when the interop copy fails and the other end is not NVMM,
  the flow return is the negation of the result of the one staged copy that follows.
\<close>

lemma gl_fallback_inverted:
  assumes "use_device_copy"
      and "(in_type = GST_CUDA_MEMORY_COPY_MEM_GL \<and> out_type \<noteq> GST_CUDA_MEMORY_COPY_MEM_NVMM \<and>
            gst_cuda_memory_copy_gl_interop drv t inbuf (ctrans_in_info self) outbuf
              (ctrans_out_info self) True out_type = (Some False, t1)) \<or>
           (in_type \<noteq> GST_CUDA_MEMORY_COPY_MEM_GL \<and> out_type = GST_CUDA_MEMORY_COPY_MEM_GL \<and>
            in_type \<noteq> GST_CUDA_MEMORY_COPY_MEM_NVMM \<and>
            gst_cuda_memory_copy_gl_interop drv t inbuf (ctrans_in_info self) outbuf
              (ctrans_out_info self) False in_type = (Some False, t1))"
  shows "transform_copy drv t self inbuf in_type outbuf out_type use_device_copy =
           (Some (flow_return (\<not> fst (gst_cuda_memory_copy_transform_sysmem drv t1))),
            snd (gst_cuda_memory_copy_transform_sysmem drv t1))"
  using assms by (auto simp: transform_copy_def Let_def split: prod.splits)

lemma set_info_flags:
  "in_nvmm (snd (gst_cuda_memory_copy_set_info ok self incaps outcaps)) = (ok \<and> caps_nvmm incaps)"
  "out_nvmm (snd (gst_cuda_memory_copy_set_info ok self incaps outcaps)) = (ok \<and> caps_nvmm outcaps)"
  "gl_context (snd (gst_cuda_memory_copy_set_info ok self incaps outcaps)) = gl_context self"
  "ctrans_in_info (snd (gst_cuda_memory_copy_set_info ok self incaps outcaps)) = ctrans_in_info self"
  "ctrans_out_info (snd (gst_cuda_memory_copy_set_info ok self incaps outcaps)) = ctrans_out_info self"
  by (auto simp: gst_cuda_memory_copy_set_info_def Let_def)

lemma tagged_is_system:
  "tagged_without_subsystem ok gl caps mem \<Longrightarrow>
     mem_type_of (ok \<and> caps_nvmm caps) gl mem = (GST_CUDA_MEMORY_COPY_MEM_SYSTEM, False)"
  by (auto simp: tagged_without_subsystem_def mem_type_of_def gst_is_cuda_memory_def
        gst_is_gl_memory_pbo_def)

text \<open>
  Claim C3.  After \<^verbatim>\<open>gst_cuda_memory_copy_set_info\<close>, an end of the transform that carries
  the NVMM tag in its caps or the GL tag in its memory, while the NVMM initialisation has
  failed or no GL context is there, is given the memory type SYSTEM.  The transform then
  goes on exactly as for a system-memory buffer at that end, and when the other end asks
  for no device copy either, it is the staged system-memory copy.
\<close>

theorem C3_uninitialised_domain_is_system:
  assumes "memories inbuf = in_mem # in_rest" and "memories outbuf = out_mem # out_rest"
      and "self' = snd (gst_cuda_memory_copy_set_info nvmm_init self incaps outcaps)"
  shows "(tagged_without_subsystem nvmm_init (gl_context self) incaps in_mem \<longrightarrow>
            fst (mem_type_of (in_nvmm self') (gl_context self') in_mem) =
              GST_CUDA_MEMORY_COPY_MEM_SYSTEM \<and>
            gst_cuda_memory_copy_transform drv t self' inbuf outbuf =
              transform_copy drv t self' inbuf GST_CUDA_MEMORY_COPY_MEM_SYSTEM outbuf
                (fst (mem_type_of (out_nvmm self') (gl_context self') out_mem))
                (snd (mem_type_of (out_nvmm self') (gl_context self') out_mem)) \<and>
            (\<not> snd (mem_type_of (out_nvmm self') (gl_context self') out_mem) \<longrightarrow>
               gst_cuda_memory_copy_transform drv t self' inbuf outbuf =
                 (Some (flow_return (fst (gst_cuda_memory_copy_transform_sysmem drv t))),
                  snd (gst_cuda_memory_copy_transform_sysmem drv t)))) \<and>
         (tagged_without_subsystem nvmm_init (gl_context self) outcaps out_mem \<longrightarrow>
            fst (mem_type_of (out_nvmm self') (gl_context self') out_mem) =
              GST_CUDA_MEMORY_COPY_MEM_SYSTEM \<and>
            gst_cuda_memory_copy_transform drv t self' inbuf outbuf =
              transform_copy drv t self' inbuf
                (fst (mem_type_of (in_nvmm self') (gl_context self') in_mem))
                outbuf GST_CUDA_MEMORY_COPY_MEM_SYSTEM
                (snd (mem_type_of (in_nvmm self') (gl_context self') in_mem)) \<and>
            (\<not> snd (mem_type_of (in_nvmm self') (gl_context self') in_mem) \<longrightarrow>
               gst_cuda_memory_copy_transform drv t self' inbuf outbuf =
                 (Some (flow_return (fst (gst_cuda_memory_copy_transform_sysmem drv t))),
                  snd (gst_cuda_memory_copy_transform_sysmem drv t))))"
proof -
  have i: "mem_type_of (in_nvmm self') (gl_context self') in_mem =
             (GST_CUDA_MEMORY_COPY_MEM_SYSTEM, False)"
    if "tagged_without_subsystem nvmm_init (gl_context self) incaps in_mem"
    using tagged_is_system[OF that] assms(3) by (simp add: set_info_flags)
  have out: "mem_type_of (out_nvmm self') (gl_context self') out_mem =
             (GST_CUDA_MEMORY_COPY_MEM_SYSTEM, False)"
    if "tagged_without_subsystem nvmm_init (gl_context self) outcaps out_mem"
    using tagged_is_system[OF that] assms(3) by (simp add: set_info_flags)
  have tr: "gst_cuda_memory_copy_transform drv t self' inbuf outbuf =
          transform_copy drv t self' inbuf
            (fst (mem_type_of (in_nvmm self') (gl_context self') in_mem)) outbuf
            (fst (mem_type_of (out_nvmm self') (gl_context self') out_mem))
            (snd (mem_type_of (in_nvmm self') (gl_context self') in_mem) \<or>
             snd (mem_type_of (out_nvmm self') (gl_context self') out_mem))"
    using assms(1,2) by (simp add: gst_cuda_memory_copy_transform_def split: prod.splits)
  have sys: "transform_copy drv t self' inbuf a outbuf b False =
               (Some (flow_return (fst (gst_cuda_memory_copy_transform_sysmem drv t))),
                  snd (gst_cuda_memory_copy_transform_sysmem drv t))" for a b
    by (simp add: transform_copy_def split: prod.splits)
  show ?thesis
    using i out by (auto simp: tr sys)
qed

theorem C3_uninitialised_domain_is_system_witness:
  "tagged_without_subsystem False False nvmm_caps OTHER_MEMORY \<and>
   tagged_without_subsystem False False system_caps GL_MEMORY_PBO \<and>
   fst (mem_type_of False False OTHER_MEMORY) = GST_CUDA_MEMORY_COPY_MEM_SYSTEM \<and>
   fst (mem_type_of False False GL_MEMORY_PBO) = GST_CUDA_MEMORY_COPY_MEM_SYSTEM \<and>
   gst_cuda_memory_copy_transform (driver_failing []) []
       (snd (gst_cuda_memory_copy_set_info False (gl_element\<lparr>gl_context := False\<rparr>)
               nvmm_caps system_caps))
       nvmm_buffer gl_buffer =
     (Some GST_FLOW_OK,
      [Enter TRANSFORM_SYSMEM,
       VideoFrameMap INBUF GST_MAP_READ False True,
       VideoFrameMap OUTBUF GST_MAP_WRITE False True,
       VideoFrameCopy True, VideoFrameUnmap OUTBUF, VideoFrameUnmap INBUF])"
proof -
  have m: "memories nvmm_buffer = OTHER_MEMORY # []" "memories gl_buffer = GL_MEMORY_PBO # []"
    by (simp_all add: nvmm_buffer_def gl_buffer_def)
  have t: "tagged_without_subsystem False False nvmm_caps OTHER_MEMORY"
          "tagged_without_subsystem False False system_caps GL_MEMORY_PBO"
    by (simp_all add: tagged_without_subsystem_def caps_nvmm_def gst_caps_get_features_def
          nvmm_caps_def system_caps_def GST_CAPS_FEATURE_MEMORY_CUDA_NVMM_MEMORY_def)
  have g: "gl_context (gl_element\<lparr>gl_context := False\<rparr>) = False" by simp
  have s: "gst_cuda_memory_copy_transform_sysmem (driver_failing []) [] =
      (True, [Enter TRANSFORM_SYSMEM,
       VideoFrameMap INBUF GST_MAP_READ False True,
       VideoFrameMap OUTBUF GST_MAP_WRITE False True,
       VideoFrameCopy True, VideoFrameUnmap OUTBUF, VideoFrameUnmap INBUF])"
    by (simp add: gst_cuda_memory_copy_transform_sysmem_def driver_failing_def Let_def)
  from C3_uninitialised_domain_is_system[OF m refl, of False "gl_element\<lparr>gl_context := False\<rparr>"
         nvmm_caps system_caps "driver_failing []" "[]"] t
  show ?thesis
    by (auto simp add: g s set_info_flags flow_return_def mem_type_of_def gst_is_cuda_memory_def
          gst_is_gl_memory_pbo_def)
qed









end
